theory Spec2Isabelle
  imports Main
begin

section \<open>JavaScript strings and values\<close>

text \<open>
  A value thrown in JavaScript, or the reason a promise is rejected with, is any value.
  The code tells an \<open>Error\<close> object, which carries a message, from the rest with
  \<open>error instanceof Error\<close>. Of the rest, \<open>undefined\<close> and \<open>null\<close> (\<open>Nullish\<close>) differ
  from every other value (\<open>NonError\<close>) in that reading a property of them throws.
\<close>

datatype thrown = Error string | Nullish | NonError

text \<open>A string is truthy when it is defined and not empty (\<open>!process.env.X\<close>, \<open>obj.Key &&\<close>).\<close>

definition falsy :: "string option \<Rightarrow> bool" where
  "falsy v = (case v of None \<Rightarrow> True | Some s \<Rightarrow> s = [])"

text \<open>\<open>s.split(c)\<close> for a one-character separator: never empty, \<open>''''.split(c) = ['''']\<close>.\<close>

fun split :: "char \<Rightarrow> string \<Rightarrow> string list" where
  "split c [] = [[]]"
| "split c (x # xs) =
     (if x = c then [] # split c xs
      else (case split c xs of [] \<Rightarrow> [[x]] | p # ps \<Rightarrow> (x # p) # ps))"

text \<open>\<open>parts.join(sep)\<close>.\<close>

fun join :: "string \<Rightarrow> string list \<Rightarrow> string" where
  "join sep [] = []"
| "join sep [p] = p"
| "join sep (p # q # ps) = p @ sep @ join sep (q # ps)"

text \<open>\<open>s.endsWith(suf)\<close>.\<close>

definition endsWith :: "string \<Rightarrow> string \<Rightarrow> bool" where
  "endsWith s suf = (length suf \<le> length s \<and> drop (length s - length suf) s = suf)"

text \<open>\<open>s.replace(pat, rep)\<close> with a string pattern: only the first occurrence is replaced.\<close>

fun replace :: "string \<Rightarrow> string \<Rightarrow> string \<Rightarrow> string" where
  "replace pat rep [] = (if pat = [] then rep else [])"
| "replace pat rep (x # xs) =
     (if take (length pat) (x # xs) = pat then rep @ drop (length pat) (x # xs)
      else x # replace pat rep xs)"

text \<open>
  \<open>a.localeCompare(b)\<close> compares by the collation of the host's locale. On strings of
  ASCII digits, which is what a date segment cut at the hyphens holds, every such
  collation is the three-way comparison of the code units from the left, and that
  comparison is the definition below. On other text the collation differs from it (it
  puts \<open>a\<close> before \<open>B\<close> and \<open>_\<close> before the digits) and depends on the locale: there
  the definition is not the code's order, and no order of such strings is stated. Only
  the sign of the result is used by the code.
\<close>

fun localeCompare :: "string \<Rightarrow> string \<Rightarrow> int" where
  "localeCompare [] [] = 0"
| "localeCompare [] (y # ys) = - 1"
| "localeCompare (x # xs) [] = 1"
| "localeCompare (x # xs) (y # ys) =
     (if (of_char x :: nat) < of_char y then - 1
      else if (of_char y :: nat) < of_char x then 1
      else localeCompare xs ys)"

text \<open>
  \<open>Array.prototype.sort(cmp)\<close> is stable, and returns the same elements. When \<open>cmp\<close> is a
  consistent order on the elements, the result is the one stable sorted arrangement,
  whichever algorithm the engine runs, and the insertion sort below computes it: it
  takes the elements from the left and puts each one before the first element of the
  sorted prefix that it precedes (\<open>cmp x y < 0\<close>), so an element stays behind the ones
  it ties with. The listing's callback is a consistent order when every entry has a
  date, or none has. With undated entries among differently dated ones it is not, the
  language leaves the order to the engine, and the arrangement computed here is one of
  the same elements whose order is then not the engine's: only its elements are.
\<close>

fun insert_by :: "('a \<Rightarrow> 'a \<Rightarrow> int) \<Rightarrow> 'a \<Rightarrow> 'a list \<Rightarrow> 'a list" where
  "insert_by cmp x [] = [x]"
| "insert_by cmp x (y # ys) = (if cmp x y < 0 then x # y # ys else y # insert_by cmp x ys)"

definition sort_by :: "('a \<Rightarrow> 'a \<Rightarrow> int) \<Rightarrow> 'a list \<Rightarrow> 'a list" where
  "sort_by cmp xs = foldl (\<lambda>acc x. insert_by cmp x acc) [] xs"

section \<open>Listing the archives of the bucket\<close>

text \<open>An entry of \<open>response.Contents\<close>; every field of the SDK's type is optional.\<close>

record s3_object =
  Key :: "string option"
  Size :: "nat option"
  LastModified :: "string option"

text \<open>
  An element of \<open>backups\<close> in the response of \<open>GET /api/backups/list\<close>. The field
  \<open>sizeMB\<close>, a fixed-point rendering of a floating-point quotient, is left out.
\<close>

record archive =
  key :: string
  projectName :: string
  date :: string
  dataset :: string
  projectId :: string
  size' :: nat
  lastModified :: "string option"

text \<open>The \<open>filter\<close> callback: \<open>obj.Key && obj.Key.endsWith('.tar.gz')\<close>.\<close>

definition is_backup :: "s3_object \<Rightarrow> bool" where
  "is_backup obj = (case Key obj of None \<Rightarrow> False | Some k \<Rightarrow> k \<noteq> [] \<and> endsWith k ''.tar.gz'')"

text \<open>
  The \<open>map\<close> callback. With four parts or more the last three are date, dataset and
  projectId (less its first \<open>.tar.gz\<close>) and the rest, joined again, is the project
  name; with fewer parts the four fields stay empty.
\<close>

definition parse_object :: "s3_object \<Rightarrow> archive" where
  "parse_object obj =
     (let k = (case Key obj of None \<Rightarrow> [] | Some s \<Rightarrow> s);
          parts = split CHR ''-'' k;
          sz = (case Size obj of None \<Rightarrow> 0 | Some n \<Rightarrow> n)
      in if 4 \<le> length parts then
           (let lastThreeParts = drop (length parts - 3) parts
            in \<lparr>key = k,
                projectName = join ''-'' (take (length parts - 3) parts),
                date = lastThreeParts ! 0,
                dataset = lastThreeParts ! 1,
                projectId = replace ''.tar.gz'' [] (lastThreeParts ! 2),
                size' = sz, lastModified = LastModified obj\<rparr>)
         else
           \<lparr>key = k, projectName = [], date = [], dataset = [], projectId = [],
            size' = sz, lastModified = LastModified obj\<rparr>)"

text \<open>The \<open>sort\<close> callback: by date, newest first, when both dates are non-empty.\<close>

definition compare_archives :: "archive \<Rightarrow> archive \<Rightarrow> int" where
  "compare_archives a b =
     (if date a \<noteq> [] \<and> date b \<noteq> [] then localeCompare (date b) (date a) else 0)"

definition backupFiles :: "s3_object list \<Rightarrow> archive list" where
  "backupFiles contents = sort_by compare_archives (map parse_object (filter is_backup contents))"

datatype list_response =
  ListError nat string
| ListOk "archive list" nat

text \<open>
  The handler of \<open>GET /api/backups/list\<close>. \<open>send\<close> is the storage client's answer to
  \<open>ListObjectsV2\<close> for a bucket: it rejects, or resolves with \<open>Contents\<close>, which is
  undefined for an empty bucket.
\<close>

definition listArchives ::
  "string option \<Rightarrow> (string \<Rightarrow> thrown + s3_object list option) \<Rightarrow> list_response" where
  "listArchives bucket send =
     (if falsy bucket then ListError 500 ''S3_BUCKET_NAME environment variable is not set''
      else
        (case send (case bucket of None \<Rightarrow> [] | Some b \<Rightarrow> b) of
           Inl e \<Rightarrow> ListError 500 (case e of Error m \<Rightarrow> m | _ \<Rightarrow> ''Unknown error occurred'')
         | Inr None \<Rightarrow> ListOk [] 0
         | Inr (Some contents) \<Rightarrow> ListOk (backupFiles contents) (length (backupFiles contents))))"

section \<open>Numbers in template literals\<close>

text \<open>
  \<open>`${n}`\<close> for a non-negative integer below \<open>10^21\<close>: its decimal digits.
  \<open>Date.now()\<close>, milliseconds since the epoch, is such a number.
\<close>

definition digit :: "nat \<Rightarrow> char" where
  "digit d = ''0123456789'' ! d"

function string_of_nat :: "nat \<Rightarrow> string" where
  "string_of_nat n = (if n < 10 then [digit n] else string_of_nat (n div 10) @ [digit (n mod 10)])"
  by pat_completeness auto
termination
  by (relation "measure (\<lambda>n. n)") auto

declare string_of_nat.simps [simp del]

section \<open>The backup status table\<close>

datatype job_status = pending | exporting | uploading | completed | failed

text \<open>The value type of the \<open>backupStatus\<close> map; the optional fields are options.\<close>

record backup_entry =
  status :: job_status
  message :: string
  progress :: "nat option"
  error :: "string option"
  s3Location :: "string option"
  etag :: "string option"
  startTime :: nat

text \<open>
  The process state a job reads and writes: the status table, the local disk (size by
  file name), and the clock that \<open>Date.now()\<close> reads. Four fields only record what
  happened, so that properties of a run can be stated: \<open>writes\<close> lists the calls of
  \<open>backupStatus.set\<close>, oldest first, \<open>exportCalls\<close> and \<open>uploadCalls\<close> count the calls
  of \<open>exportDataset\<close> and the uploads started, and \<open>unhandledRejections\<close> counts the
  promises rejected with no handler left to take the rejection.
\<close>

record world =
  backupStatus :: "string \<rightharpoonup> backup_entry"
  writes :: "(string \<times> backup_entry) list"
  files :: "string \<rightharpoonup> nat"
  now :: nat
  exportCalls :: nat
  uploadCalls :: nat
  unhandledRejections :: nat

definition set_status :: "string \<Rightarrow> backup_entry \<Rightarrow> world \<Rightarrow> world" where
  "set_status k v w = w\<lparr>backupStatus := (backupStatus w)(k \<mapsto> v), writes := writes w @ [(k, v)]\<rparr>"

text \<open>
  What the environment and the collaborators answer during one job. \<open>createFilename\<close>
  is imported from \<open>./utils/lib\<close>, another module: it is a parameter, a function
  of its three arguments. A \<open>thrown option\<close> is \<open>None\<close> when the call
  returns or the promise resolves. The three durations are the times the three awaited
  promises take; synchronous code takes no time.
\<close>

record collaborators =
  S3_BUCKET_NAME :: "string option"
  AWS_ACCESS_KEY_ID :: "string option"
  AWS_SECRET_ACCESS_KEY :: "string option"
  createFilename :: "string \<Rightarrow> string \<Rightarrow> string \<Rightarrow> string"
  createClient_throws :: "thrown option"
  fetch_rejects :: "thrown option"
  fetch_ms :: nat
  export_rejects :: "thrown option"
  export_leaves :: "nat option"
  export_ms :: nat
  upload_progress :: "(nat \<times> nat) list"
  upload_result :: "thrown + string option"
  upload_ms :: nat
  unlink_throws :: "thrown option"
  cleanup_throws :: "thrown option"

text \<open>\<open>error instanceof Error ? error.message : 'Unknown error'\<close>.\<close>

definition error_message :: "thrown \<Rightarrow> string" where
  "error_message e = (case e of Error m \<Rightarrow> m | _ \<Rightarrow> ''Unknown error'')"

definition await :: "nat \<Rightarrow> world \<Rightarrow> world" where
  "await ms w = w\<lparr>now := now w + ms\<rparr>"

section \<open>performBackup\<close>

text \<open>
  The \<open>try\<close> block, cut at its three \<open>await\<close>s. Each piece returns the value it throws,
  if any, with the world at that moment.

  Up to \<open>await client.fetch\<close>: the three environment variables and \<open>createClient\<close>.
  This piece runs inside the call of \<open>performBackup\<close>, before the caller gets the
  promise.
\<close>

definition try_until_fetch :: "collaborators \<Rightarrow> thrown option" where
  "try_until_fetch c =
     (if falsy (S3_BUCKET_NAME c) then
        Some (Error ''S3_BUCKET_NAME environment variable is not set'')
      else if falsy (AWS_ACCESS_KEY_ID c) then
        Some (Error ''AWS_ACCESS_KEY_ID environment variable is not set'')
      else if falsy (AWS_SECRET_ACCESS_KEY c) then
        Some (Error ''AWS_SECRET_ACCESS_KEY environment variable is not set'')
      else createClient_throws c)"

text \<open>From the answer of the probe to \<open>await newExport\<close>.\<close>

definition try_until_export ::
  "collaborators \<Rightarrow> string \<Rightarrow> string \<Rightarrow> string \<Rightarrow> string \<Rightarrow> world \<Rightarrow> thrown option \<times> world" where
  "try_until_export c backupId pid ds pname w =
     (case fetch_rejects c of
        Some sanityError \<Rightarrow>
          (Some (Error (''Failed to connect to Sanity: '' @ error_message sanityError)), w)
      | None \<Rightarrow>
          (let w1 = set_status backupId
                 \<lparr>status = exporting, message = ''Exporting data'', progress = None,
                  error = None, s3Location = None, etag = None, startTime = now w\<rparr> w
           in (None, w1\<lparr>exportCalls := exportCalls w1 + 1\<rparr>)))"

text \<open>The export, while it is awaited: it takes its time and may leave a file.\<close>

definition export_runs :: "collaborators \<Rightarrow> string \<Rightarrow> world \<Rightarrow> world" where
  "export_runs c filename w =
     (let w1 = await (export_ms c) w
      in case export_leaves c of
           None \<Rightarrow> w1
         | Some n \<Rightarrow> w1\<lparr>files := (files w1)(filename \<mapsto> n)\<rparr>)"

text \<open>From the end of the export to \<open>await upload.done()\<close>.\<close>

definition try_until_upload ::
  "collaborators \<Rightarrow> string \<Rightarrow> string \<Rightarrow> string \<Rightarrow> string \<Rightarrow> world \<Rightarrow> thrown option \<times> world" where
  "try_until_upload c backupId pid ds pname w =
     (case export_rejects c of
        Some e \<Rightarrow> (Some e, w)
      | None \<Rightarrow>
          (let filename = createFilename c pid ds pname;
               w1 = set_status backupId
                 \<lparr>status = uploading, message = ''Uploading to S3...'', progress = None,
                  error = None, s3Location = None, etag = None, startTime = now w\<rparr> w
           in if files w1 filename = None then
                (Some (Error (''Export file not found: '' @ filename)), w1)
              else (None, w1\<lparr>uploadCalls := uploadCalls w1 + 1\<rparr>)))"

text \<open>
  \<open>Math.round((loaded / total) * 100)\<close> is computed on doubles. A positive double is
  kept here as a pair \<open>(m, e)\<close> that stands for \<open>m * 2^e\<close>, with \<open>m\<close> between \<open>2^52\<close> and
  \<open>2^53\<close>. The byte counts are positive integers below \<open>2^53\<close>, which doubles hold
  exactly, and no quotient or product of the computation leaves the normal range.

  \<open>nearest_even a b\<close> is the integer nearest to \<open>a / b\<close>, a tie going to the even one;
  \<open>double_of_quotient a b\<close> is the double nearest to \<open>a / b\<close>: the quotient is scaled by
  the power of two that brings it between \<open>2^52\<close> and \<open>2^53\<close> and rounded there.
\<close>

function bit_length :: "nat \<Rightarrow> nat" where
  "bit_length n = (if n = 0 then 0 else Suc (bit_length (n div 2)))"
  by pat_completeness auto
termination
  by (relation "measure (\<lambda>n. n)") auto

declare bit_length.simps [simp del]

definition nearest_even :: "nat \<Rightarrow> nat \<Rightarrow> nat" where
  "nearest_even a b =
     (let q = a div b; r = a mod b
      in if 2 * r < b then q else if b < 2 * r then q + 1 else if even q then q else q + 1)"

definition double_of_quotient :: "nat \<Rightarrow> nat \<Rightarrow> nat \<times> int" where
  "double_of_quotient a b =
     (let d = int (bit_length a) - int (bit_length b);
          fl = (if b * 2 ^ nat d \<le> a * 2 ^ nat (- d) then d else d - 1);
          k = 52 - fl
      in (nearest_even (a * 2 ^ nat k) (b * 2 ^ nat (- k)), - k))"

text \<open>The double product of an integer and a double.\<close>

definition double_times :: "nat \<Rightarrow> nat \<times> int \<Rightarrow> nat \<times> int" where
  "double_times n x = double_of_quotient (n * fst x * 2 ^ nat (snd x)) (2 ^ nat (- snd x))"

text \<open>\<open>Math.round\<close> of a positive double: the nearest integer, a half going up.\<close>

definition Math_round :: "nat \<times> int \<Rightarrow> nat" where
  "Math_round x =
     (if 0 \<le> snd x then fst x * 2 ^ nat (snd x)
      else (2 * fst x + 2 ^ nat (- snd x)) div 2 ^ (nat (- snd x) + 1))"

definition percentage_of :: "nat \<Rightarrow> nat \<Rightarrow> nat" where
  "percentage_of loaded total' =
     Math_round (double_times 100 (double_of_quotient loaded total'))"

text \<open>
  The \<open>httpUploadProgress\<close> listener; an event is \<open>(loaded, total)\<close>, \<open>0\<close> standing for a
  missing field too. It copies the job's entry and overwrites three fields. The entry
  is there (it was set before the upload started, and nothing deletes entries); were
  it not, the model leaves the table alone.
\<close>

definition on_progress :: "string \<Rightarrow> nat \<times> nat \<Rightarrow> world \<Rightarrow> world" where
  "on_progress backupId ev w =
     (if fst ev \<noteq> 0 \<and> snd ev \<noteq> 0 then
        (case backupStatus w backupId of
           None \<Rightarrow> w
         | Some old \<Rightarrow>
             set_status backupId
               (old\<lparr>status := uploading,
                    message := ''Uploading to S3... '' @ string_of_nat (percentage_of (fst ev) (snd ev)) @ ''%'',
                    progress := Some (percentage_of (fst ev) (snd ev))\<rparr>) w)
      else w)"

definition upload_runs :: "collaborators \<Rightarrow> string \<Rightarrow> world \<Rightarrow> world" where
  "upload_runs c backupId w = await (upload_ms c) (fold (on_progress backupId) (upload_progress c) w)"

text \<open>From the end of the upload to the end of the \<open>try\<close> block.\<close>

definition try_after_upload ::
  "collaborators \<Rightarrow> string \<Rightarrow> string \<Rightarrow> string \<Rightarrow> string \<Rightarrow> world \<Rightarrow> thrown option \<times> world" where
  "try_after_upload c backupId pid ds pname w =
     (case upload_result c of
        Inl e \<Rightarrow> (Some e, w)
      | Inr tag \<Rightarrow>
          (case unlink_throws c of
             Some e \<Rightarrow> (Some e, w)
           | None \<Rightarrow>
               (let filename = createFilename c pid ds pname;
                    w1 = w\<lparr>files := (files w)(filename := None)\<rparr>
                in (None,
                    set_status backupId
                      \<lparr>status = completed, message = ''Backup completed successfully'',
                       progress = None, error = None, s3Location = Some filename,
                       etag = tag, startTime = now w1\<rparr> w1))))"

text \<open>The \<open>try\<close> block from the answer of the probe on.\<close>

definition try_after_fetch ::
  "collaborators \<Rightarrow> string \<Rightarrow> string \<Rightarrow> string \<Rightarrow> string \<Rightarrow> world \<Rightarrow> thrown option \<times> world" where
  "try_after_fetch c backupId pid ds pname w =
     (case try_until_export c backupId pid ds pname (await (fetch_ms c) w) of
        (Some e, w1) \<Rightarrow> (Some e, w1)
      | (None, w1) \<Rightarrow>
          (case try_until_upload c backupId pid ds pname
                  (export_runs c (createFilename c pid ds pname) w1) of
             (Some e, w2) \<Rightarrow> (Some e, w2)
           | (None, w2) \<Rightarrow> try_after_upload c backupId pid ds pname (upload_runs c backupId w2)))"

text \<open>
  The \<open>catch\<close> block, before its final \<open>throw error\<close>: it removes the file if there is
  one, logs and drops what the removal throws, and sets the entry to failed.
\<close>

definition performBackup_catch ::
  "collaborators \<Rightarrow> string \<Rightarrow> string \<Rightarrow> string \<Rightarrow> string \<Rightarrow> thrown \<Rightarrow> world \<Rightarrow> world" where
  "performBackup_catch c backupId pid ds pname e w =
     (let filename = createFilename c pid ds pname;
          w1 = (if files w filename \<noteq> None then
                  (case cleanup_throws c of
                     None \<Rightarrow> w\<lparr>files := (files w)(filename := None)\<rparr>
                   | Some cleanupError \<Rightarrow> w)
                else w);
          errorMessage = error_message e
      in set_status backupId
           \<lparr>status = failed, message = ''Backup failed'', progress = None,
            error = Some errorMessage, s3Location = None, etag = None, startTime = now w1\<rparr> w1)"

text \<open>
  \<open>performBackup\<close> in two parts. The first runs inside the call, up to the first
  \<open>await\<close>: the promise it returns is rejected already (\<open>Some e\<close>) when that part
  throws, since then the \<open>catch\<close> block has run and thrown again. The second part is the
  rest of the job, resumed by the event loop later.
\<close>

definition performBackup_sync ::
  "collaborators \<Rightarrow> string \<Rightarrow> string \<Rightarrow> string \<Rightarrow> string \<Rightarrow> world \<Rightarrow> thrown option \<times> world" where
  "performBackup_sync c backupId pid ds pname w =
     (case try_until_fetch c of
        Some e \<Rightarrow> (Some e, performBackup_catch c backupId pid ds pname e w)
      | None \<Rightarrow> (None, w))"

definition performBackup_resume ::
  "collaborators \<Rightarrow> string \<Rightarrow> string \<Rightarrow> string \<Rightarrow> string \<Rightarrow> world \<Rightarrow> thrown option \<times> world" where
  "performBackup_resume c backupId pid ds pname w =
     (case try_after_fetch c backupId pid ds pname w of
        (Some e, w1) \<Rightarrow> (Some e, performBackup_catch c backupId pid ds pname e w1)
      | (None, w1) \<Rightarrow> (None, w1))"

text \<open>
  The whole \<open>try\<close> block and the whole function, from the call to the settling of the
  promise, whenever the event loop runs the pieces.
\<close>

definition try_block ::
  "collaborators \<Rightarrow> string \<Rightarrow> string \<Rightarrow> string \<Rightarrow> string \<Rightarrow> world \<Rightarrow> thrown option \<times> world" where
  "try_block c backupId pid ds pname w =
     (case try_until_fetch c of
        Some e \<Rightarrow> (Some e, w)
      | None \<Rightarrow> try_after_fetch c backupId pid ds pname w)"

definition performBackup ::
  "collaborators \<Rightarrow> string \<Rightarrow> string \<Rightarrow> string \<Rightarrow> string \<Rightarrow> world \<Rightarrow> thrown option \<times> world" where
  "performBackup c backupId pid ds pname w =
     (case try_block c backupId pid ds pname w of
        (Some e, w1) \<Rightarrow> (Some e, performBackup_catch c backupId pid ds pname e w1)
      | (None, w1) \<Rightarrow> (None, w1))"

section \<open>Starting a backup and asking for its status\<close>

definition backupId_of :: "string \<Rightarrow> string \<Rightarrow> nat \<Rightarrow> string" where
  "backupId_of pid ds t = pid @ ''-'' @ ds @ ''-'' @ string_of_nat t"

text \<open>
  The handler of \<open>GET /api/backup/:projectId/:dataset/:apiVersion/:token/:projectName\<close>
  up to its \<open>res.json\<close>: the id it answers with, the state of the promise of
  \<open>performBackup\<close>, and the world at that moment. \<open>apiVersion\<close> and \<open>token\<close> go to
  \<open>createClient\<close> only and are not arguments here.
\<close>

definition startBackup ::
  "collaborators \<Rightarrow> string \<Rightarrow> string \<Rightarrow> string \<Rightarrow> world \<Rightarrow> string \<times> thrown option \<times> world" where
  "startBackup c pid ds pname w =
     (let backupId = backupId_of pid ds (now w);
          w1 = set_status backupId
                 \<lparr>status = pending, message = ''Starting backup process...'', progress = None,
                  error = None, s3Location = None, etag = None, startTime = now w\<rparr> w
      in (backupId, performBackup_sync c backupId pid ds pname w1))"

text \<open>
  The callback of \<open>.catch\<close> on the promise of \<open>performBackup\<close>. Before it writes to the
  table it logs \<open>error.name\<close>, \<open>error.message\<close> and \<open>error.stack\<close>, unguarded. For
  \<open>undefined\<close> and \<open>null\<close> that read throws a TypeError: the callback ends there, nothing
  is written, and the promise that \<open>.catch\<close> returned is rejected with no handler. For
  every other value the reads succeed and the entry is set to failed.
\<close>

definition on_rejected :: "string \<Rightarrow> thrown \<Rightarrow> world \<Rightarrow> world" where
  "on_rejected backupId e w =
     (case e of
        Nullish \<Rightarrow> w\<lparr>unhandledRejections := unhandledRejections w + 1\<rparr>
      | _ \<Rightarrow>
          set_status backupId
            \<lparr>status = failed, message = ''Backup failed'', progress = None,
             error = Some (error_message e), s3Location = None, etag = None,
             startTime = now w\<rparr> w)"

text \<open>The world once the job that a request started has settled.\<close>

definition run_job :: "collaborators \<Rightarrow> string \<Rightarrow> string \<Rightarrow> string \<Rightarrow> world \<Rightarrow> world" where
  "run_job c pid ds pname w =
     (case startBackup c pid ds pname w of
        (backupId, Some e, w1) \<Rightarrow> on_rejected backupId e w1
      | (backupId, None, w1) \<Rightarrow>
          (case performBackup_resume c backupId pid ds pname w1 of
             (Some e, w2) \<Rightarrow> on_rejected backupId e w2
           | (None, w2) \<Rightarrow> w2))"

datatype status_response =
  NotFound
| StatusView backup_entry int

text \<open>The handler of \<open>GET /api/backup/status/:backupId\<close>; the integer is \<open>duration\<close>.\<close>

definition getStatus :: "string \<Rightarrow> world \<Rightarrow> status_response" where
  "getStatus backupId w =
     (case backupStatus w backupId of
        None \<Rightarrow> NotFound
      | Some s \<Rightarrow> StatusView s (int (now w) - int (startTime s)))"

text \<open>The writes to the status table that one job makes, oldest first.\<close>

definition job_writes ::
  "collaborators \<Rightarrow> string \<Rightarrow> string \<Rightarrow> string \<Rightarrow> world \<Rightarrow> (string \<times> backup_entry) list" where
  "job_writes c pid ds pname w = drop (length (writes w)) (writes (run_job c pid ds pname w))"

definition terminal :: "job_status \<Rightarrow> bool" where
  "terminal s = (s = completed \<or> s = failed)"

text \<open>What is written after the first entry in a terminal state.\<close>

fun writes_after_terminal :: "backup_entry list \<Rightarrow> backup_entry list" where
  "writes_after_terminal [] = []"
| "writes_after_terminal (e # es) = (if terminal (status e) then es else writes_after_terminal es)"

text \<open>
  A step of a job that writes nothing to the table but entries of the job in
  non-terminal states.
\<close>

definition writes_grow :: "string \<Rightarrow> world \<Rightarrow> world \<Rightarrow> bool" where
  "writes_grow backupId w w1 =
     (\<exists>pre. list_all (\<lambda>e. \<not> terminal (status e)) pre
           \<and> writes w1 = writes w @ map (Pair backupId) pre)"

subsection \<open>An example run\<close>

text \<open>
  A configured server whose collaborators all succeed: the probe takes 200 ms, the
  export 5000 ms and leaves an empty file, the upload 3000 ms with two progress events.
  The request arrives at time 1000 in a fresh process.
\<close>

definition example_collaborators :: collaborators where
  "example_collaborators =
     \<lparr>S3_BUCKET_NAME = Some ''backups'', AWS_ACCESS_KEY_ID = Some ''id'',
      AWS_SECRET_ACCESS_KEY = Some ''secret'',
      createFilename = (\<lambda>pid ds pname. pname @ ''-2025-01-15-'' @ ds @ ''-'' @ pid @ ''.tar.gz''),
      createClient_throws = None, fetch_rejects = None, fetch_ms = 200,
      export_rejects = None, export_leaves = Some 0, export_ms = 5000,
      upload_progress = [(5, 10), (10, 10)], upload_result = Inr (Some ''tag''),
      upload_ms = 3000, unlink_throws = None, cleanup_throws = None\<rparr>"

definition example_world :: world where
  "example_world =
     \<lparr>backupStatus = Map.empty, writes = [], files = Map.empty, now = 1000,
      exportCalls = 0, uploadCalls = 0, unhandledRejections = 0\<rparr>"

section \<open>Downloading an archive\<close>

record s3_get_output =
  Body :: "string option"
  ContentLength :: "nat option"

datatype download_response =
  ErrorJson nat string
| Streamed "(string \<times> string) list" string

text \<open>
  \<open>res.setHeader\<close> throws on a header value that holds a control character other than
  the tab (or a code unit above 255, which a \<open>char\<close> here cannot be).
\<close>

definition invalid_header_char :: "char \<Rightarrow> bool" where
  "invalid_header_char ch = ((of_char ch :: nat) < 32 \<and> (of_char ch :: nat) \<noteq> 9
                              \<or> (of_char ch :: nat) = 127)"

text \<open>
  The handler of \<open>GET /api/backups/download/:key(*)\<close>. \<open>send\<close> is the storage client's
  answer to \<open>GetObject\<close> for a bucket and a key. A response is the status and message of
  \<open>res.status(500).json\<close>, or the headers set and the body piped. The file name in
  \<open>Content-Disposition\<close> is the last segment of the key; when \<open>setHeader\<close> refuses it,
  the handler's \<open>catch\<close> answers with the TypeError's message.
\<close>

definition downloadArchive ::
  "string option \<Rightarrow> (string \<Rightarrow> string \<Rightarrow> thrown + s3_get_output) \<Rightarrow> string \<Rightarrow> download_response" where
  "downloadArchive bucket send k =
     (if falsy bucket then ErrorJson 500 ''S3_BUCKET_NAME environment variable is not set''
      else
        (case send (case bucket of None \<Rightarrow> [] | Some b \<Rightarrow> b) k of
           Inl e \<Rightarrow> ErrorJson 500 (case e of Error m \<Rightarrow> m | _ \<Rightarrow> ''Unknown error occurred'')
         | Inr response \<Rightarrow>
             (case Body response of
                None \<Rightarrow> ErrorJson 500 ''No response body received from S3''
              | Some body \<Rightarrow>
                  if list_ex invalid_header_char (last (split CHR ''/'' k)) then
                    ErrorJson 500
                      (''Invalid character in header content ['' @ [CHR 0x22]
                       @ ''Content-Disposition'' @ [CHR 0x22] @ '']'')
                  else
                    Streamed
                      ([(''Content-Type'', ''application/gzip''),
                        (''Content-Disposition'',
                         ''attachment; filename='' @ [CHR 0x22] @ last (split CHR ''/'' k)
                         @ [CHR 0x22])]
                       @ (case ContentLength response of
                            None \<Rightarrow> []
                          | Some n \<Rightarrow>
                              if n = 0 then [] else [(''Content-Length'', string_of_nat n)]))
                      body)))"

section \<open>Properties of the listing\<close>

lemma set_insert_by: "set (insert_by cmp x ys) = insert x (set ys)"
  by (induction ys) auto

lemma length_insert_by: "length (insert_by cmp x ys) = Suc (length ys)"
  by (induction ys) auto

lemma set_foldl_insert_by:
  "set (foldl (\<lambda>acc x. insert_by cmp x acc) acc xs) = set acc \<union> set xs"
  by (induction xs arbitrary: acc) (auto simp: set_insert_by)

lemma length_foldl_insert_by:
  "length (foldl (\<lambda>acc x. insert_by cmp x acc) acc xs) = length acc + length xs"
  by (induction xs arbitrary: acc) (auto simp: length_insert_by)

lemma set_sort_by: "set (sort_by cmp xs) = set xs"
  by (simp add: sort_by_def set_foldl_insert_by)

lemma length_sort_by: "length (sort_by cmp xs) = length xs"
  by (simp add: sort_by_def length_foldl_insert_by)

lemma parse_object_short:
  assumes "Key obj = Some k" and "length (split CHR ''-'' k) < 4"
  shows "parse_object obj =
           \<lparr>key = k, projectName = [], date = [], dataset = [], projectId = [],
            size' = (case Size obj of None \<Rightarrow> 0 | Some n \<Rightarrow> n),
            lastModified = LastModified obj\<rparr>"
  using assms by (simp add: parse_object_def Let_def)

text \<open>
  C1. For a bucket holding exactly \<open>acme-2025-01-15-production-abc123.tar.gz\<close> and
  \<open>acme-2025-02-01-staging-def456.tar.gz\<close> the claim expects the February entry first.
  The handler cuts the key at every hyphen, so the date it compares is the day of the
  month alone (\<open>15\<close> and \<open>01\<close>) and the year and month end up in the project name: the
  January entry comes first, in whichever order the bucket lists the two objects.
\<close>

theorem listArchives_january_first:
  "listArchives (Some ''bucket'')
     (\<lambda>b. Inr (Some
        [\<lparr>Key = Some ''acme-2025-01-15-production-abc123.tar.gz'', Size = Some 10,
          LastModified = None\<rparr>,
         \<lparr>Key = Some ''acme-2025-02-01-staging-def456.tar.gz'', Size = Some 20,
          LastModified = None\<rparr>]))
   = ListOk
       [\<lparr>key = ''acme-2025-01-15-production-abc123.tar.gz'', projectName = ''acme-2025-01'',
         date = ''15'', dataset = ''production'', projectId = ''abc123'', size' = 10,
         lastModified = None\<rparr>,
        \<lparr>key = ''acme-2025-02-01-staging-def456.tar.gz'', projectName = ''acme-2025-02'',
         date = ''01'', dataset = ''staging'', projectId = ''def456'', size' = 20,
         lastModified = None\<rparr>] 2
   \<and> map key (backupFiles
        [\<lparr>Key = Some ''acme-2025-02-01-staging-def456.tar.gz'', Size = Some 20,
          LastModified = None\<rparr>,
         \<lparr>Key = Some ''acme-2025-01-15-production-abc123.tar.gz'', Size = Some 10,
          LastModified = None\<rparr>])
     = [''acme-2025-01-15-production-abc123.tar.gz'', ''acme-2025-02-01-staging-def456.tar.gz'']"
  by (simp add: listArchives_def falsy_def backupFiles_def is_backup_def endsWith_def
      parse_object_def sort_by_def compare_archives_def Let_def)

text \<open>
  C10. An object of the bucket whose key ends in \<open>.tar.gz\<close> and has fewer than four
  hyphen-delimited parts is in the listing, with its key and with projectName, date,
  dataset and projectId empty; the listing has as many entries as there are objects
  that pass the filter.
\<close>

theorem listArchives_keeps_short_keys:
  assumes "b \<noteq> []" and "send b = Inr (Some contents)"
    and "obj \<in> set contents" and "Key obj = Some k"
    and "endsWith k ''.tar.gz''" and "length (split CHR ''-'' k) < 4"
  shows "\<exists>as. listArchives (Some b) send = ListOk as (length (filter is_backup contents))
           \<and> \<lparr>key = k, projectName = [], date = [], dataset = [], projectId = [],
               size' = (case Size obj of None \<Rightarrow> 0 | Some n \<Rightarrow> n),
               lastModified = LastModified obj\<rparr> \<in> set as"
proof -
  have k: "k \<noteq> []"
    using assms(5) by (auto simp: endsWith_def)
  have "is_backup obj"
    using assms(4,5) k by (simp add: is_backup_def)
  then have "parse_object obj \<in> set (backupFiles contents)"
    using assms(3) by (simp add: backupFiles_def set_sort_by)
  moreover have "length (backupFiles contents) = length (filter is_backup contents)"
    by (simp add: backupFiles_def length_sort_by)
  ultimately show ?thesis
    using assms(1,2) parse_object_short [OF assms(4,6)]
    by (simp add: listArchives_def falsy_def)
qed

theorem listArchives_keeps_short_keys_witness:
  "\<exists>as. listArchives (Some ''bucket'')
          (\<lambda>b. Inr (Some [\<lparr>Key = Some ''old-backup.tar.gz'', Size = Some 7,
                            LastModified = None\<rparr>])) = ListOk as 1
         \<and> \<lparr>key = ''old-backup.tar.gz'', projectName = [], date = [], dataset = [],
             projectId = [], size' = 7, lastModified = None\<rparr> \<in> set as"
  using listArchives_keeps_short_keys
    [of "''bucket''"
        "\<lambda>b. Inr (Some [\<lparr>Key = Some ''old-backup.tar.gz'', Size = Some 7, LastModified = None\<rparr>])"
        "[\<lparr>Key = Some ''old-backup.tar.gz'', Size = Some 7, LastModified = None\<rparr>]"
        "\<lparr>Key = Some ''old-backup.tar.gz'', Size = Some 7, LastModified = None\<rparr>"
        "''old-backup.tar.gz''"]
  by (simp add: endsWith_def is_backup_def)

section \<open>Properties of a job\<close>

lemma string_of_nat_small: "n < 10 \<Longrightarrow> string_of_nat n = [digit n]"
  by (simp add: string_of_nat.simps)

lemma string_of_nat_big:
  "\<not> n < 10 \<Longrightarrow> string_of_nat n = string_of_nat (n div 10) @ [digit (n mod 10)]"
  by (subst string_of_nat.simps) simp

lemmas string_of_nat_eval = string_of_nat_small string_of_nat_big digit_def

subsection \<open>The fields of the world after each step\<close>

lemma set_status_sel [simp]:
  "backupStatus (set_status k v w) = (backupStatus w)(k \<mapsto> v)"
  "writes (set_status k v w) = writes w @ [(k, v)]"
  "files (set_status k v w) = files w"
  "now (set_status k v w) = now w"
  "exportCalls (set_status k v w) = exportCalls w"
  "uploadCalls (set_status k v w) = uploadCalls w"
  "unhandledRejections (set_status k v w) = unhandledRejections w"
  by (simp_all add: set_status_def)

lemma await_sel [simp]:
  "backupStatus (await ms w) = backupStatus w"
  "writes (await ms w) = writes w"
  "files (await ms w) = files w"
  "now (await ms w) = now w + ms"
  "exportCalls (await ms w) = exportCalls w"
  "uploadCalls (await ms w) = uploadCalls w"
  "unhandledRejections (await ms w) = unhandledRejections w"
  by (simp_all add: await_def)

lemma export_runs_sel [simp]:
  "backupStatus (export_runs c f w) = backupStatus w"
  "writes (export_runs c f w) = writes w"
  "files (export_runs c f w) =
     (case export_leaves c of None \<Rightarrow> files w | Some n \<Rightarrow> (files w)(f \<mapsto> n))"
  "now (export_runs c f w) = now w + export_ms c"
  "exportCalls (export_runs c f w) = exportCalls w"
  "uploadCalls (export_runs c f w) = uploadCalls w"
  by (simp_all add: export_runs_def Let_def split: option.splits)

lemma on_progress_frame:
  "files (on_progress bid ev w) = files w"
  "now (on_progress bid ev w) = now w"
  "exportCalls (on_progress bid ev w) = exportCalls w"
  "uploadCalls (on_progress bid ev w) = uploadCalls w"
  by (simp_all add: on_progress_def split: option.splits)

lemma fold_progress_frame:
  "files (fold (on_progress bid) evs w) = files w"
  "now (fold (on_progress bid) evs w) = now w"
  "exportCalls (fold (on_progress bid) evs w) = exportCalls w"
  "uploadCalls (fold (on_progress bid) evs w) = uploadCalls w"
  by (induction evs arbitrary: w, simp_all add: on_progress_frame)+

lemma upload_runs_sel [simp]:
  "files (upload_runs c bid w) = files w"
  "now (upload_runs c bid w) = now w + upload_ms c"
  "exportCalls (upload_runs c bid w) = exportCalls w"
  "uploadCalls (upload_runs c bid w) = uploadCalls w"
  by (simp_all add: upload_runs_def fold_progress_frame)

lemma catch_sel [simp]:
  "backupStatus (performBackup_catch c bid pid ds pname e w) =
     (backupStatus w)(bid \<mapsto>
        \<lparr>status = failed, message = ''Backup failed'', progress = None,
         error = Some (error_message e), s3Location = None, etag = None, startTime = now w\<rparr>)"
  "writes (performBackup_catch c bid pid ds pname e w) =
     writes w @ [(bid,
        \<lparr>status = failed, message = ''Backup failed'', progress = None,
         error = Some (error_message e), s3Location = None, etag = None, startTime = now w\<rparr>)]"
  "files (performBackup_catch c bid pid ds pname e w) =
     (if cleanup_throws c = None then (files w)(createFilename c pid ds pname := None)
      else files w)"
  "now (performBackup_catch c bid pid ds pname e w) = now w"
  "exportCalls (performBackup_catch c bid pid ds pname e w) = exportCalls w"
  "uploadCalls (performBackup_catch c bid pid ds pname e w) = uploadCalls w"
  "unhandledRejections (performBackup_catch c bid pid ds pname e w) = unhandledRejections w"
  by (auto simp: performBackup_catch_def Let_def split: option.splits)

lemma on_rejected_sel [simp]:
  "backupStatus (on_rejected bid e w) =
     (if e = Nullish then backupStatus w
      else (backupStatus w)(bid \<mapsto>
        \<lparr>status = failed, message = ''Backup failed'', progress = None,
         error = Some (error_message e), s3Location = None, etag = None, startTime = now w\<rparr>))"
  "writes (on_rejected bid e w) =
     (if e = Nullish then writes w
      else writes w @ [(bid,
        \<lparr>status = failed, message = ''Backup failed'', progress = None,
         error = Some (error_message e), s3Location = None, etag = None, startTime = now w\<rparr>)])"
  "files (on_rejected bid e w) = files w"
  "now (on_rejected bid e w) = now w"
  "exportCalls (on_rejected bid e w) = exportCalls w"
  "uploadCalls (on_rejected bid e w) = uploadCalls w"
  "unhandledRejections (on_rejected bid e w) =
     (if e = Nullish then unhandledRejections w + 1 else unhandledRejections w)"
  by (cases e; simp add: on_rejected_def)+

subsection \<open>The pieces of the try block, case by case\<close>

lemma try_until_fetch_missing:
  assumes "falsy (S3_BUCKET_NAME c) \<or> falsy (AWS_ACCESS_KEY_ID c) \<or> falsy (AWS_SECRET_ACCESS_KEY c)"
  shows "try_until_fetch c =
           Some (Error ((if falsy (S3_BUCKET_NAME c) then ''S3_BUCKET_NAME''
                         else if falsy (AWS_ACCESS_KEY_ID c) then ''AWS_ACCESS_KEY_ID''
                         else ''AWS_SECRET_ACCESS_KEY'') @ '' environment variable is not set''))"
  using assms by (auto simp: try_until_fetch_def)

lemma try_until_fetch_None:
  "(try_until_fetch c = None) =
     (\<not> falsy (S3_BUCKET_NAME c) \<and> \<not> falsy (AWS_ACCESS_KEY_ID c)
      \<and> \<not> falsy (AWS_SECRET_ACCESS_KEY c) \<and> createClient_throws c = None)"
  by (simp add: try_until_fetch_def)

lemma try_until_export_rejects:
  "fetch_rejects c = Some x \<Longrightarrow>
   try_until_export c bid pid ds pname w =
     (Some (Error (''Failed to connect to Sanity: '' @ error_message x)), w)"
  by (simp add: try_until_export_def)

lemma try_until_export_resolves:
  "fetch_rejects c = None \<Longrightarrow>
   try_until_export c bid pid ds pname w =
     (None,
      (set_status bid
         \<lparr>status = exporting, message = ''Exporting data'', progress = None,
          error = None, s3Location = None, etag = None, startTime = now w\<rparr> w)
      \<lparr>exportCalls := exportCalls w + 1\<rparr>)"
  by (simp add: try_until_export_def Let_def)

lemma try_until_upload_rejects:
  "export_rejects c = Some e \<Longrightarrow> try_until_upload c bid pid ds pname w = (Some e, w)"
  by (simp add: try_until_upload_def)

lemma try_until_upload_absent:
  "export_rejects c = None \<Longrightarrow> files w (createFilename c pid ds pname) = None \<Longrightarrow>
   try_until_upload c bid pid ds pname w =
     (Some (Error (''Export file not found: '' @ createFilename c pid ds pname)),
      set_status bid
        \<lparr>status = uploading, message = ''Uploading to S3...'', progress = None,
         error = None, s3Location = None, etag = None, startTime = now w\<rparr> w)"
  by (simp add: try_until_upload_def Let_def)

lemma try_until_upload_present:
  "export_rejects c = None \<Longrightarrow> files w (createFilename c pid ds pname) = Some n \<Longrightarrow>
   try_until_upload c bid pid ds pname w =
     (None,
      (set_status bid
        \<lparr>status = uploading, message = ''Uploading to S3...'', progress = None,
         error = None, s3Location = None, etag = None, startTime = now w\<rparr> w)
      \<lparr>uploadCalls := uploadCalls w + 1\<rparr>)"
  by (simp add: try_until_upload_def Let_def)

lemma try_after_upload_frame:
  "uploadCalls (snd (try_after_upload c bid pid ds pname w)) = uploadCalls w"
  "exportCalls (snd (try_after_upload c bid pid ds pname w)) = exportCalls w"
  "now (snd (try_after_upload c bid pid ds pname w)) = now w"
  by (simp_all add: try_after_upload_def Let_def split: sum.splits option.splits)

text \<open>The job in terms of the whole function and of its try block.\<close>

lemma performBackup_sync_resume:
  "performBackup c bid pid ds pname w =
     (case performBackup_sync c bid pid ds pname w of
        (Some e, w1) \<Rightarrow> (Some e, w1)
      | (None, w1) \<Rightarrow> performBackup_resume c bid pid ds pname w1)"
  by (simp add: performBackup_def try_block_def performBackup_sync_def performBackup_resume_def
      split: option.splits prod.splits)

lemma run_job_performBackup:
  "run_job c pid ds pname w =
     (case performBackup c (backupId_of pid ds (now w)) pid ds pname
             (set_status (backupId_of pid ds (now w))
                \<lparr>status = pending, message = ''Starting backup process...'', progress = None,
                 error = None, s3Location = None, etag = None, startTime = now w\<rparr> w) of
        (Some e, w1) \<Rightarrow> on_rejected (backupId_of pid ds (now w)) e w1
      | (None, w1) \<Rightarrow> w1)"
  by (simp add: run_job_def startBackup_def performBackup_sync_resume Let_def
      split: option.splits prod.splits)

lemma run_job_try_block:
  "run_job c pid ds pname w =
     (case try_block c (backupId_of pid ds (now w)) pid ds pname
             (set_status (backupId_of pid ds (now w))
                \<lparr>status = pending, message = ''Starting backup process...'', progress = None,
                 error = None, s3Location = None, etag = None, startTime = now w\<rparr> w) of
        (Some e, w1) \<Rightarrow>
          on_rejected (backupId_of pid ds (now w)) e
            (performBackup_catch c (backupId_of pid ds (now w)) pid ds pname e w1)
      | (None, w1) \<Rightarrow> w1)"
  by (simp add: run_job_performBackup performBackup_def split: option.splits prod.splits)

lemma run_job_uploadCalls:
  "uploadCalls (run_job c pid ds pname w) =
     uploadCalls (snd (try_block c (backupId_of pid ds (now w)) pid ds pname
             (set_status (backupId_of pid ds (now w))
                \<lparr>status = pending, message = ''Starting backup process...'', progress = None,
                 error = None, s3Location = None, etag = None, startTime = now w\<rparr> w)))"
  by (simp add: run_job_try_block split: option.splits prod.splits)


lemma run_job_exportCalls:
  "exportCalls (run_job c pid ds pname w) =
     exportCalls (snd (try_block c (backupId_of pid ds (now w)) pid ds pname
             (set_status (backupId_of pid ds (now w))
                \<lparr>status = pending, message = ''Starting backup process...'', progress = None,
                 error = None, s3Location = None, etag = None, startTime = now w\<rparr> w)))"
  by (simp add: run_job_try_block split: option.splits prod.splits)

text \<open>The try block once the pre-flight checks and the probe have passed.\<close>

lemma try_block_after_probe:
  assumes "try_until_fetch c = None" and "fetch_rejects c = None"
  shows "try_block c bid pid ds pname w =
     (case try_until_upload c bid pid ds pname
             (export_runs c (createFilename c pid ds pname)
               ((set_status bid
                  \<lparr>status = exporting, message = ''Exporting data'', progress = None,
                   error = None, s3Location = None, etag = None,
                   startTime = now w + fetch_ms c\<rparr> (await (fetch_ms c) w))
                \<lparr>exportCalls := exportCalls w + 1\<rparr>)) of
        (Some e, w2) \<Rightarrow> (Some e, w2)
      | (None, w2) \<Rightarrow> try_after_upload c bid pid ds pname (upload_runs c bid w2))"
  by (simp add: try_block_def try_after_fetch_def assms try_until_export_resolves)

text \<open>The try block does not depend on how the cleanup of the catch block fares.\<close>

lemma try_pieces_cleanup:
  "try_until_fetch (c\<lparr>cleanup_throws := x\<rparr>) = try_until_fetch c"
  "try_until_export (c\<lparr>cleanup_throws := x\<rparr>) = try_until_export c"
  "export_runs (c\<lparr>cleanup_throws := x\<rparr>) = export_runs c"
  "try_until_upload (c\<lparr>cleanup_throws := x\<rparr>) = try_until_upload c"
  "upload_runs (c\<lparr>cleanup_throws := x\<rparr>) = upload_runs c"
  "try_after_upload (c\<lparr>cleanup_throws := x\<rparr>) = try_after_upload c"
  "fetch_ms (c\<lparr>cleanup_throws := x\<rparr>) = fetch_ms c"
  "createFilename (c\<lparr>cleanup_throws := x\<rparr>) = createFilename c"
  by (simp_all add: fun_eq_iff try_until_fetch_def try_until_export_def export_runs_def
      try_until_upload_def upload_runs_def try_after_upload_def Let_def
      split: option.splits sum.splits)

lemma try_block_cleanup:
  "try_block (c\<lparr>cleanup_throws := x\<rparr>) bid pid ds pname w = try_block c bid pid ds pname w"
  unfolding try_block_def try_after_fetch_def try_pieces_cleanup by (rule refl)

text \<open>Nothing in the try block leaves a rejection unhandled.\<close>

lemma on_progress_unhandled:
  "unhandledRejections (on_progress bid ev w) = unhandledRejections w"
  by (simp add: on_progress_def split: option.splits)

lemma fold_progress_unhandled:
  "unhandledRejections (fold (on_progress bid) evs w) = unhandledRejections w"
  by (induction evs arbitrary: w) (simp_all add: on_progress_unhandled)

lemma try_pieces_unhandled:
  "unhandledRejections (snd (try_until_export c bid pid ds pname w)) = unhandledRejections w"
  "unhandledRejections (export_runs c f w) = unhandledRejections w"
  "unhandledRejections (snd (try_until_upload c bid pid ds pname w)) = unhandledRejections w"
  "unhandledRejections (upload_runs c bid w) = unhandledRejections w"
  "unhandledRejections (snd (try_after_upload c bid pid ds pname w)) = unhandledRejections w"
  by (simp_all add: try_until_export_def export_runs_def try_until_upload_def upload_runs_def
      try_after_upload_def fold_progress_unhandled Let_def split: option.splits sum.splits)

lemma try_after_fetch_unhandled:
  "unhandledRejections (snd (try_after_fetch c bid pid ds pname w)) = unhandledRejections w"
  by (simp add: try_after_fetch_def case_prod_beta try_pieces_unhandled split: option.splits)

lemma try_block_unhandled:
  "unhandledRejections (snd (try_block c bid pid ds pname w)) = unhandledRejections w"
  by (simp add: try_block_def try_after_fetch_unhandled split: option.splits)

subsection \<open>The writes of a job\<close>

lemma on_progress_writes:
  "\<exists>us. list_all (\<lambda>e. status e = uploading) us
        \<and> writes (on_progress bid ev w) = writes w @ map (Pair bid) us"
proof (cases "fst ev \<noteq> 0 \<and> snd ev \<noteq> 0 \<and> backupStatus w bid \<noteq> None")
  case True
  then obtain old where "backupStatus w bid = Some old" by auto
  with True have "writes (on_progress bid ev w) = writes w @ map (Pair bid)
      [old\<lparr>status := uploading,
           message := ''Uploading to S3... '' @ string_of_nat (percentage_of (fst ev) (snd ev)) @ ''%'',
           progress := Some (percentage_of (fst ev) (snd ev))\<rparr>]"
    by (simp add: on_progress_def)
  then show ?thesis
    by (intro exI [of _ "[old\<lparr>status := uploading,
           message := ''Uploading to S3... '' @ string_of_nat (percentage_of (fst ev) (snd ev)) @ ''%'',
           progress := Some (percentage_of (fst ev) (snd ev))\<rparr>]"]) simp
next
  case False
  then have "writes (on_progress bid ev w) = writes w @ map (Pair bid) []"
    by (auto simp: on_progress_def)
  then show ?thesis
    by (intro exI [of _ "[]"]) simp
qed

lemma fold_progress_writes:
  "\<exists>us. list_all (\<lambda>e. status e = uploading) us
        \<and> writes (fold (on_progress bid) evs w) = writes w @ map (Pair bid) us"
proof (induction evs arbitrary: w)
  case Nil
  show ?case by (intro exI [of _ "[]"]) simp
next
  case (Cons ev evs)
  obtain us where us: "list_all (\<lambda>e. status e = uploading) us"
      "writes (on_progress bid ev w) = writes w @ map (Pair bid) us"
    using on_progress_writes by blast
  obtain vs where vs: "list_all (\<lambda>e. status e = uploading) vs"
      "writes (fold (on_progress bid) evs (on_progress bid ev w)) =
         writes (on_progress bid ev w) @ map (Pair bid) vs"
    using Cons.IH by blast
  show ?case
    using us vs by (intro exI [of _ "us @ vs"]) simp
qed

lemma writes_grow_same: "writes w1 = writes w \<Longrightarrow> writes_grow bid w w1"
  unfolding writes_grow_def by (intro exI [of _ "[]"]) simp

lemma writes_grow_trans:
  assumes "writes_grow bid w w1" and "writes_grow bid w1 w2"
  shows "writes_grow bid w w2"
proof -
  obtain p where p: "list_all (\<lambda>e. \<not> terminal (status e)) p"
      "writes w1 = writes w @ map (Pair bid) p"
    using assms(1) unfolding writes_grow_def by blast
  obtain q where q: "list_all (\<lambda>e. \<not> terminal (status e)) q"
      "writes w2 = writes w1 @ map (Pair bid) q"
    using assms(2) unfolding writes_grow_def by blast
  show ?thesis
    unfolding writes_grow_def using p q by (intro exI [of _ "p @ q"]) simp
qed

lemma writes_grow_set:
  "\<not> terminal (status v) \<Longrightarrow> writes w1 = writes (set_status bid v w) \<Longrightarrow> writes_grow bid w w1"
  unfolding writes_grow_def by (intro exI [of _ "[v]"]) simp

lemma upload_runs_grow: "writes_grow bid w (upload_runs c bid w)"
proof -
  obtain us where us: "list_all (\<lambda>e. status e = uploading) us"
      "writes (fold (on_progress bid) (upload_progress c) w) = writes w @ map (Pair bid) us"
    using fold_progress_writes by blast
  have "list_all (\<lambda>e. \<not> terminal (status e)) us"
    using us(1) by (induction us) (simp_all add: terminal_def)
  then show ?thesis
    unfolding writes_grow_def using us(2)
    by (intro exI [of _ us]) (simp add: upload_runs_def)
qed

lemma try_until_export_grow: "writes_grow bid w (snd (try_until_export c bid pid ds pname w))"
proof (cases "fetch_rejects c")
  case None
  show ?thesis
    by (rule writes_grow_set [where v = "\<lparr>status = exporting, message = ''Exporting data'',
          progress = None, error = None, s3Location = None, etag = None, startTime = now w\<rparr>"])
      (simp_all add: try_until_export_resolves [OF None] terminal_def)
next
  case (Some x)
  show ?thesis
    by (rule writes_grow_same) (simp add: try_until_export_rejects [OF Some])
qed

lemma try_until_upload_grow: "writes_grow bid w (snd (try_until_upload c bid pid ds pname w))"
proof (cases "export_rejects c")
  case None
  show ?thesis
    by (rule writes_grow_set [where v = "\<lparr>status = uploading, message = ''Uploading to S3...'',
          progress = None, error = None, s3Location = None, etag = None, startTime = now w\<rparr>"])
      (simp_all add: try_until_upload_def None terminal_def Let_def)
next
  case (Some e)
  show ?thesis
    by (rule writes_grow_same) (simp add: try_until_upload_rejects [OF Some])
qed

lemma try_after_upload_writes:
  "case fst (try_after_upload c bid pid ds pname w) of
     Some e \<Rightarrow> writes (snd (try_after_upload c bid pid ds pname w)) = writes w
   | None \<Rightarrow> \<exists>ce. status ce = completed
        \<and> writes (snd (try_after_upload c bid pid ds pname w)) = writes w @ [(bid, ce)]"
  by (simp add: try_after_upload_def Let_def split: sum.splits option.splits)

text \<open>
  Up to the end of the try block a job writes entries in non-terminal states only,
  except for the completed entry, which is the last thing a try block writes.
\<close>

lemma try_after_fetch_writes:
  "\<exists>w'. writes_grow bid w w'
     \<and> (case fst (try_after_fetch c bid pid ds pname w) of
          Some e \<Rightarrow> writes (snd (try_after_fetch c bid pid ds pname w)) = writes w'
        | None \<Rightarrow> \<exists>ce. status ce = completed
             \<and> writes (snd (try_after_fetch c bid pid ds pname w)) = writes w' @ [(bid, ce)])"
proof -
  define wA where "wA = await (fetch_ms c) w"
  define rB where "rB = try_until_export c bid pid ds pname wA"
  define wC where "wC = export_runs c (createFilename c pid ds pname) (snd rB)"
  define rD where "rD = try_until_upload c bid pid ds pname wC"
  define wE where "wE = upload_runs c bid (snd rD)"
  define rF where "rF = try_after_upload c bid pid ds pname wE"
  have gA: "writes_grow bid w wA"
    by (rule writes_grow_same) (simp add: wA_def)
  have gB: "writes_grow bid w (snd rB)"
    unfolding rB_def by (rule writes_grow_trans [OF gA try_until_export_grow])
  have gC: "writes_grow bid w wC"
    by (rule writes_grow_trans [OF gB]) (rule writes_grow_same, simp add: wC_def)
  have gD: "writes_grow bid w (snd rD)"
    unfolding rD_def by (rule writes_grow_trans [OF gC try_until_upload_grow])
  have gE: "writes_grow bid w wE"
    unfolding wE_def by (rule writes_grow_trans [OF gD upload_runs_grow])
  have taf: "try_after_fetch c bid pid ds pname w =
      (case fst rB of Some e \<Rightarrow> rB
       | None \<Rightarrow> (case fst rD of Some e \<Rightarrow> rD | None \<Rightarrow> rF))"
    by (auto simp: try_after_fetch_def rB_def rD_def rF_def wA_def wC_def wE_def
        case_prod_beta prod_eq_iff split: option.splits)
  show ?thesis
  proof (cases "fst rB")
    case (Some e)
    then show ?thesis
      using gB by (intro exI [of _ "snd rB"]) (simp add: taf)
  next
    case B: None
    show ?thesis
    proof (cases "fst rD")
      case (Some e)
      then show ?thesis
        using gD B by (intro exI [of _ "snd rD"]) (simp add: taf)
    next
      case D: None
      have eq: "try_after_fetch c bid pid ds pname w = try_after_upload c bid pid ds pname wE"
        by (simp add: taf B D rF_def)
      show ?thesis
        unfolding eq using gE try_after_upload_writes [of c bid pid ds pname wE]
        by (intro exI [of _ wE]) simp
    qed
  qed
qed

lemma try_block_writes:
  "\<exists>w'. writes_grow bid w w'
     \<and> (case fst (try_block c bid pid ds pname w) of
          Some e \<Rightarrow> writes (snd (try_block c bid pid ds pname w)) = writes w'
        | None \<Rightarrow> \<exists>ce. status ce = completed
             \<and> writes (snd (try_block c bid pid ds pname w)) = writes w' @ [(bid, ce)])"
proof (cases "try_until_fetch c")
  case None
  then have "try_block c bid pid ds pname w = try_after_fetch c bid pid ds pname w"
    by (simp add: try_block_def)
  then show ?thesis
    using try_after_fetch_writes [of bid w c pid ds pname] by (simp only:)
next
  case (Some e)
  then have "try_block c bid pid ds pname w = (Some e, w)"
    by (simp add: try_block_def)
  then show ?thesis
    by (intro exI [of _ w]) (simp add: writes_grow_same)
qed

lemma writes_after_terminal_append:
  "list_all (\<lambda>e. \<not> terminal (status e)) pre \<Longrightarrow> terminal (status e) \<Longrightarrow>
   writes_after_terminal (pre @ e # es) = es"
  by (induction pre) simp_all

lemma map_snd_Pair: "map snd (map (Pair k) xs) = xs"
  by (induction xs) simp_all

subsection \<open>Decimal digits\<close>

lemma digit_inj: "d < 10 \<Longrightarrow> d' < 10 \<Longrightarrow> digit d = digit d' \<Longrightarrow> d = d'"
  using nth_eq_iff_index_eq [of "''0123456789''" d d'] by (simp add: digit_def)

lemma digit_not_hyphen: "d < 10 \<Longrightarrow> digit d \<noteq> CHR ''-''"
proof -
  assume "d < 10"
  then have "digit d \<in> set ''0123456789''"
    unfolding digit_def by (intro nth_mem) simp
  then show ?thesis by auto
qed

lemma string_of_nat_not_Nil: "string_of_nat n \<noteq> []"
  by (subst string_of_nat.simps) simp

lemma string_of_nat_no_hyphen: "CHR ''-'' \<notin> set (string_of_nat n)"
proof (induction n rule: string_of_nat.induct)
  case (1 n)
  show ?case
  proof (cases "n < 10")
    case True
    then show ?thesis
      using digit_not_hyphen [of n] by (simp add: string_of_nat_small)
  next
    case False
    then show ?thesis
      using "1" digit_not_hyphen [of "n mod 10"] by (simp add: string_of_nat_big)
  qed
qed

lemma string_of_nat_inj: "string_of_nat m = string_of_nat n \<Longrightarrow> m = n"
proof (induction m arbitrary: n rule: string_of_nat.induct)
  case (1 m)
  show ?case
  proof (cases "m < 10")
    case m: True
    show ?thesis
    proof (cases "n < 10")
      case True
      with m "1.prems" show ?thesis
        by (simp add: string_of_nat_small digit_inj)
    next
      case False
      with m "1.prems" show ?thesis
        by (simp add: string_of_nat_small string_of_nat_big string_of_nat_not_Nil
            Cons_eq_append_conv)
    qed
  next
    case m: False
    show ?thesis
    proof (cases "n < 10")
      case True
      with m "1.prems" show ?thesis
        by (simp add: string_of_nat_small string_of_nat_big string_of_nat_not_Nil
            append_eq_Cons_conv)
    next
      case False
      with m "1.prems" have "string_of_nat (m div 10) = string_of_nat (n div 10)"
          and d: "digit (m mod 10) = digit (n mod 10)"
        by (simp_all add: string_of_nat_big)
      then have "m div 10 = n div 10"
        using "1.IH" m by simp
      moreover have "m mod 10 = n mod 10"
        using d by (intro digit_inj) simp_all
      ultimately show ?thesis
        by (metis div_mult_mod_eq)
    qed
  qed
qed

lemma after_last_separator:
  assumes "xs @ c # s = ys @ c # t" and "c \<notin> set s" and "c \<notin> set t"
  shows "s = t \<and> xs = ys"
proof -
  have tw: "takeWhile (\<lambda>x. x \<noteq> c) (rev u @ c # zs) = rev u" if "c \<notin> set u" for u zs
  proof -
    have "takeWhile (\<lambda>x. x \<noteq> c) (rev u @ c # zs) =
          rev u @ takeWhile (\<lambda>x. x \<noteq> c) (c # zs)"
      using that by (intro takeWhile_append2) auto
    then show ?thesis by simp
  qed
  have "rev (xs @ c # s) = rev (ys @ c # t)"
    using assms(1) by simp
  then have "rev s @ c # rev xs = rev t @ c # rev ys"
    by simp
  then have "takeWhile (\<lambda>x. x \<noteq> c) (rev s @ c # rev xs) =
             takeWhile (\<lambda>x. x \<noteq> c) (rev t @ c # rev ys)"
    by (rule arg_cong)
  then have "s = t"
    using tw [OF assms(2)] tw [OF assms(3)] by simp
  then show ?thesis
    using assms(1) by simp
qed

lemma backupId_of_eq_iff:
  "(backupId_of p1 d1 t1 = backupId_of p2 d2 t2) = (t1 = t2 \<and> p1 @ ''-'' @ d1 = p2 @ ''-'' @ d2)"
proof
  assume "backupId_of p1 d1 t1 = backupId_of p2 d2 t2"
  then have "(p1 @ ''-'' @ d1) @ CHR ''-'' # string_of_nat t1 =
             (p2 @ ''-'' @ d2) @ CHR ''-'' # string_of_nat t2"
    by (simp add: backupId_of_def)
  then have "string_of_nat t1 = string_of_nat t2 \<and> p1 @ ''-'' @ d1 = p2 @ ''-'' @ d2"
    by (rule after_last_separator) (rule string_of_nat_no_hyphen)+
  then show "t1 = t2 \<and> p1 @ ''-'' @ d1 = p2 @ ''-'' @ d2"
    by (simp add: string_of_nat_inj)
next
  assume "t1 = t2 \<and> p1 @ ''-'' @ d1 = p2 @ ''-'' @ d2"
  then show "backupId_of p1 d1 t1 = backupId_of p2 d2 t2"
    by (simp add: backupId_of_def)
qed

subsection \<open>The percentage of a progress event\<close>

lemma bit_length_0: "bit_length 0 = 0"
  by (simp add: bit_length.simps)

lemma bit_length_pos: "0 < n \<Longrightarrow> bit_length n = Suc (bit_length (n div 2))"
  by (subst bit_length.simps) simp

text \<open>
  Half and all of the bytes give 50 and 100. For 120586240 of 209715200 bytes the
  quotient is 0.575 on the rationals, whose hundredfold rounds to 58; the double
  nearest to it is a little smaller, its product with 100 is below 57.5, and the
  percentage is 57.
\<close>

lemma percentage_of_examples:
  "percentage_of 5 10 = 50"
  "percentage_of 10 10 = 100"
  "percentage_of 120586240 209715200 = 57"
  by (simp_all add: percentage_of_def Math_round_def double_times_def double_of_quotient_def
      nearest_even_def bit_length_0 bit_length_pos Let_def)

subsection \<open>Evaluating a run\<close>

lemmas run_defs =
  run_job_def startBackup_def performBackup_sync_def performBackup_resume_def
  performBackup_catch_def on_rejected_def try_until_fetch_def try_after_fetch_def
  try_until_export_def export_runs_def try_until_upload_def upload_runs_def on_progress_def
  try_after_upload_def set_status_def await_def error_message_def falsy_def backupId_of_def
  getStatus_def job_writes_def Let_def

lemmas example_defs = example_collaborators_def example_world_def

section \<open>The claims about a job\<close>

text \<open>
  C2, as stated: once the entry of a job is completed or failed, nothing writes to it
  again. With no bucket configured the job writes pending, failed and failed: the
  catch block of \<open>performBackup\<close> sets the entry to failed and throws again, and the
  \<open>.catch\<close> callback of the route sets it to failed once more.
\<close>

theorem failed_is_written_twice_counterexample:
  "map fst (job_writes (example_collaborators\<lparr>S3_BUCKET_NAME := None\<rparr>)
              ''abc'' ''production'' ''acme'' example_world) =
     [''abc-production-1000'', ''abc-production-1000'', ''abc-production-1000'']
   \<and> writes_after_terminal
       (map snd (job_writes (example_collaborators\<lparr>S3_BUCKET_NAME := None\<rparr>)
                   ''abc'' ''production'' ''acme'' example_world)) =
     [\<lparr>status = failed, message = ''Backup failed'', progress = None,
       error = Some ''S3_BUCKET_NAME environment variable is not set'',
       s3Location = None, etag = None, startTime = 1000\<rparr>]"
  by (simp add: run_defs example_defs string_of_nat_eval terminal_def)

text \<open>
  C2, amended. Of the writes that one job makes: the job writes to its own entry only,
  and every write before the first terminal one is in a non-terminal state. Completed
  is terminal: the completed entry is the job's last write. After the failed entry
  that the catch block of \<open>performBackup\<close> writes, the route's \<open>.catch\<close> callback writes
  once more, failed again with the same message and error, and that is the last
  write; when the job was rejected with \<open>undefined\<close> or \<open>null\<close> the callback throws
  before it writes, the failed entry of the catch block is the last write, and the
  rejection is left unhandled.
\<close>

theorem writes_of_a_job:
  "\<exists>pre. list_all (\<lambda>e. \<not> terminal (status e)) pre
     \<and> (case fst (try_block c (backupId_of pid ds (now w)) pid ds pname
                    (set_status (backupId_of pid ds (now w))
                       \<lparr>status = pending, message = ''Starting backup process...'',
                        progress = None, error = None, s3Location = None, etag = None,
                        startTime = now w\<rparr> w)) of
          None \<Rightarrow>
            \<exists>ce. status ce = completed
              \<and> job_writes c pid ds pname w =
                  map (Pair (backupId_of pid ds (now w))) (pre @ [ce])
              \<and> writes_after_terminal (map snd (job_writes c pid ds pname w)) = []
        | Some e \<Rightarrow>
            \<exists>f. status f = failed \<and> message f = ''Backup failed''
              \<and> error f = Some (error_message e)
              \<and> (if e = Nullish then
                    job_writes c pid ds pname w =
                      map (Pair (backupId_of pid ds (now w))) (pre @ [f])
                    \<and> writes_after_terminal (map snd (job_writes c pid ds pname w)) = []
                    \<and> unhandledRejections (run_job c pid ds pname w) =
                        unhandledRejections w + 1
                  else
                    \<exists>f2. status f2 = failed \<and> message f2 = message f \<and> error f2 = error f
                      \<and> job_writes c pid ds pname w =
                          map (Pair (backupId_of pid ds (now w))) (pre @ [f, f2])
                      \<and> writes_after_terminal (map snd (job_writes c pid ds pname w)) = [f2]))"
proof -
  define bid where "bid = backupId_of pid ds (now w)"
  define pe where "pe = \<lparr>status = pending, message = ''Starting backup process...'',
      progress = None, error = None, s3Location = None, etag = None, startTime = now w\<rparr>"
  define w0 where "w0 = set_status bid pe w"
  define tb where "tb = try_block c bid pid ds pname w0"
  have rj: "run_job c pid ds pname w =
     (case tb of
        (Some e, w1) \<Rightarrow> on_rejected bid e (performBackup_catch c bid pid ds pname e w1)
      | (None, w1) \<Rightarrow> w1)"
    unfolding tb_def bid_def w0_def pe_def by (rule run_job_try_block)
  obtain w' where g: "writes_grow bid w0 w'"
    and r: "case fst tb of
          Some e \<Rightarrow> writes (snd tb) = writes w'
        | None \<Rightarrow> \<exists>ce. status ce = completed \<and> writes (snd tb) = writes w' @ [(bid, ce)]"
    using try_block_writes [of bid w0 c pid ds pname] unfolding tb_def by blast
  obtain p where p: "list_all (\<lambda>e. \<not> terminal (status e)) p"
      "writes w' = writes w0 @ map (Pair bid) p"
    using g unfolding writes_grow_def by blast
  have pre: "list_all (\<lambda>e. \<not> terminal (status e)) (pe # p)"
    using p(1) by (simp add: pe_def terminal_def)
  have w': "writes w' = writes w @ map (Pair bid) (pe # p)"
    using p(2) by (simp add: w0_def)
  have "list_all (\<lambda>e. \<not> terminal (status e)) (pe # p)
     \<and> (case fst tb of
          None \<Rightarrow>
            \<exists>ce. status ce = completed
              \<and> job_writes c pid ds pname w = map (Pair bid) ((pe # p) @ [ce])
              \<and> writes_after_terminal (map snd (job_writes c pid ds pname w)) = []
        | Some e \<Rightarrow>
            \<exists>f. status f = failed \<and> message f = ''Backup failed''
              \<and> error f = Some (error_message e)
              \<and> (if e = Nullish then
                    job_writes c pid ds pname w = map (Pair bid) ((pe # p) @ [f])
                    \<and> writes_after_terminal (map snd (job_writes c pid ds pname w)) = []
                    \<and> unhandledRejections (run_job c pid ds pname w) =
                        unhandledRejections w + 1
                  else
                    \<exists>f2. status f2 = failed \<and> message f2 = message f \<and> error f2 = error f
                      \<and> job_writes c pid ds pname w = map (Pair bid) ((pe # p) @ [f, f2])
                      \<and> writes_after_terminal (map snd (job_writes c pid ds pname w)) = [f2]))"
  proof (cases "fst tb")
    case None
    then obtain ce where ce: "status ce = completed" "writes (snd tb) = writes w' @ [(bid, ce)]"
      using r by auto
    have "run_job c pid ds pname w = snd tb"
      using None by (cases tb) (simp add: rj)
    then have jw: "job_writes c pid ds pname w = map (Pair bid) ((pe # p) @ [ce])"
      using ce(2) w' by (simp add: job_writes_def)
    have "writes_after_terminal ((pe # p) @ ce # []) = []"
      using pre ce(1) by (intro writes_after_terminal_append) (simp_all add: terminal_def)
    then have after: "writes_after_terminal (map snd (job_writes c pid ds pname w)) = []"
      unfolding jw map_snd_Pair by simp
    have "\<exists>ce. status ce = completed
        \<and> job_writes c pid ds pname w = map (Pair bid) ((pe # p) @ [ce])
        \<and> writes_after_terminal (map snd (job_writes c pid ds pname w)) = []"
      using ce(1) jw after by (intro exI [of _ ce] conjI)
    then show ?thesis
      unfolding None option.case using pre by (intro conjI)
  next
    case (Some e)
    define f where "f = \<lparr>status = failed, message = ''Backup failed'', progress = None,
        error = Some (error_message e), s3Location = None, etag = None, startTime = now (snd tb)\<rparr>"
    have f: "status f = failed" "message f = ''Backup failed''" "error f = Some (error_message e)"
      by (simp_all add: f_def)
    have wtb: "writes (snd tb) = writes w'"
      using r Some by simp
    have run: "run_job c pid ds pname w =
        on_rejected bid e (performBackup_catch c bid pid ds pname e (snd tb))"
      using Some by (cases tb) (simp add: rj)
    have utb: "unhandledRejections (snd tb) = unhandledRejections w"
      unfolding tb_def w0_def by (simp add: try_block_unhandled)
    have "if e = Nullish then
            job_writes c pid ds pname w = map (Pair bid) ((pe # p) @ [f])
            \<and> writes_after_terminal (map snd (job_writes c pid ds pname w)) = []
            \<and> unhandledRejections (run_job c pid ds pname w) = unhandledRejections w + 1
          else
            \<exists>f2. status f2 = failed \<and> message f2 = message f \<and> error f2 = error f
              \<and> job_writes c pid ds pname w = map (Pair bid) ((pe # p) @ [f, f2])
              \<and> writes_after_terminal (map snd (job_writes c pid ds pname w)) = [f2]"
    proof (cases "e = Nullish")
      case True
      have jw: "job_writes c pid ds pname w = map (Pair bid) ((pe # p) @ [f])"
        using run wtb w' True by (simp add: job_writes_def f_def)
      have "writes_after_terminal ((pe # p) @ f # []) = []"
        using pre f(1) by (intro writes_after_terminal_append) (simp_all add: terminal_def)
      then have after: "writes_after_terminal (map snd (job_writes c pid ds pname w)) = []"
        unfolding jw map_snd_Pair by simp
      have un: "unhandledRejections (run_job c pid ds pname w) = unhandledRejections w + 1"
        using run utb True by simp
      have inner: "job_writes c pid ds pname w = map (Pair bid) ((pe # p) @ [f])
            \<and> writes_after_terminal (map snd (job_writes c pid ds pname w)) = []
            \<and> unhandledRejections (run_job c pid ds pname w) = unhandledRejections w + 1"
        using jw after un by (intro conjI)
      show ?thesis
        by (subst if_P [OF True]) (rule inner)
    next
      case False
      have jw: "job_writes c pid ds pname w = map (Pair bid) ((pe # p) @ [f, f])"
        using run wtb w' False by (simp add: job_writes_def f_def)
      have "writes_after_terminal ((pe # p) @ f # [f]) = [f]"
        using pre f(1) by (intro writes_after_terminal_append) (simp_all add: terminal_def)
      then have after: "writes_after_terminal (map snd (job_writes c pid ds pname w)) = [f]"
        unfolding jw map_snd_Pair by simp
      have inner: "\<exists>f2. status f2 = failed \<and> message f2 = message f \<and> error f2 = error f
              \<and> job_writes c pid ds pname w = map (Pair bid) ((pe # p) @ [f, f2])
              \<and> writes_after_terminal (map snd (job_writes c pid ds pname w)) = [f2]"
        using f(1) jw after by (intro exI [of _ f] conjI refl)
      show ?thesis
        by (subst if_not_P [OF False]) (rule inner)
    qed
    then have "\<exists>f. status f = failed \<and> message f = ''Backup failed''
        \<and> error f = Some (error_message e)
        \<and> (if e = Nullish then
              job_writes c pid ds pname w = map (Pair bid) ((pe # p) @ [f])
              \<and> writes_after_terminal (map snd (job_writes c pid ds pname w)) = []
              \<and> unhandledRejections (run_job c pid ds pname w) = unhandledRejections w + 1
            else
              \<exists>f2. status f2 = failed \<and> message f2 = message f \<and> error f2 = error f
                \<and> job_writes c pid ds pname w = map (Pair bid) ((pe # p) @ [f, f2])
                \<and> writes_after_terminal (map snd (job_writes c pid ds pname w)) = [f2])"
      using f by (intro exI [of _ f] conjI)
    then show ?thesis
      unfolding Some option.case using pre by (intro conjI)
  qed
  note main = this [unfolded tb_def w0_def pe_def bid_def]
  show ?thesis
    by (rule exI [of _ "\<lparr>status = pending, message = ''Starting backup process...'',
          progress = None, error = None, s3Location = None, etag = None, startTime = now w\<rparr>
          # p"]) (rule main)
qed

theorem writes_of_a_job_witness:
  "job_writes (example_collaborators\<lparr>export_rejects := Some Nullish\<rparr>)
     ''abc'' ''production'' ''acme'' example_world =
     map (Pair ''abc-production-1000'')
       [\<lparr>status = pending, message = ''Starting backup process...'', progress = None,
         error = None, s3Location = None, etag = None, startTime = 1000\<rparr>,
        \<lparr>status = exporting, message = ''Exporting data'', progress = None,
         error = None, s3Location = None, etag = None, startTime = 1200\<rparr>,
        \<lparr>status = failed, message = ''Backup failed'', progress = None,
         error = Some ''Unknown error'', s3Location = None, etag = None, startTime = 6200\<rparr>]
   \<and> unhandledRejections
       (run_job (example_collaborators\<lparr>export_rejects := Some Nullish\<rparr>)
          ''abc'' ''production'' ''acme'' example_world) = 1
   \<and> (\<exists>pre f. list_all (\<lambda>e. \<not> terminal (status e)) pre \<and> status f = failed
        \<and> job_writes (example_collaborators\<lparr>export_rejects := Some Nullish\<rparr>)
             ''abc'' ''production'' ''acme'' example_world =
            map (Pair ''abc-production-1000'') (pre @ [f])
        \<and> writes_after_terminal
            (map snd (job_writes (example_collaborators\<lparr>export_rejects := Some Nullish\<rparr>)
                        ''abc'' ''production'' ''acme'' example_world)) = [])"
proof -
  let ?c = "example_collaborators\<lparr>export_rejects := Some Nullish\<rparr>"
  have bid: "backupId_of ''abc'' ''production'' (now example_world) = ''abc-production-1000''"
    by (simp add: backupId_of_def example_defs string_of_nat_eval)
  have tb: "fst (try_block ?c ''abc-production-1000'' ''abc'' ''production'' ''acme''
              (set_status ''abc-production-1000''
                 \<lparr>status = pending, message = ''Starting backup process...'',
                  progress = None, error = None, s3Location = None, etag = None,
                  startTime = now example_world\<rparr> example_world)) = Some Nullish"
    by (simp add: try_block_def run_defs example_defs)
  have 1: "job_writes ?c ''abc'' ''production'' ''acme'' example_world =
     map (Pair ''abc-production-1000'')
       [\<lparr>status = pending, message = ''Starting backup process...'', progress = None,
         error = None, s3Location = None, etag = None, startTime = 1000\<rparr>,
        \<lparr>status = exporting, message = ''Exporting data'', progress = None,
         error = None, s3Location = None, etag = None, startTime = 1200\<rparr>,
        \<lparr>status = failed, message = ''Backup failed'', progress = None,
         error = Some ''Unknown error'', s3Location = None, etag = None, startTime = 6200\<rparr>]"
    by (simp add: run_defs example_defs string_of_nat_eval)
  have 2: "unhandledRejections (run_job ?c ''abc'' ''production'' ''acme'' example_world) = 1"
    by (simp add: run_defs example_defs string_of_nat_eval)
  have 3: "\<exists>pre f. list_all (\<lambda>e. \<not> terminal (status e)) pre \<and> status f = failed
        \<and> job_writes ?c ''abc'' ''production'' ''acme'' example_world =
            map (Pair ''abc-production-1000'') (pre @ [f])
        \<and> writes_after_terminal
            (map snd (job_writes ?c ''abc'' ''production'' ''acme'' example_world)) = []"
    using writes_of_a_job [of ?c "''abc''" "''production''" "''acme''" example_world]
    unfolding bid tb by auto
  show ?thesis
    using 1 2 3 by blast
qed

text \<open>
  C3. The claim has \<open>startTime\<close> set when the job is created and kept by every later
  transition, so that \<open>duration\<close> is the age of the job. In the example run the entry is
  created at 1000; the writes for exporting, uploading and completed each store a new
  \<open>Date.now()\<close> (1200, 6200, 9200), only the progress listener keeps the field, and
  a status request at the moment of completion reports duration 0 for a job that is
  8200 ms old.
\<close>

theorem startTime_is_reset_by_every_transition:
  "map (\<lambda>(k, e). (k, status e, startTime e))
     (job_writes example_collaborators ''abc'' ''production'' ''acme'' example_world) =
     [(''abc-production-1000'', pending, 1000), (''abc-production-1000'', exporting, 1200),
      (''abc-production-1000'', uploading, 6200), (''abc-production-1000'', uploading, 6200),
      (''abc-production-1000'', uploading, 6200), (''abc-production-1000'', completed, 9200)]
   \<and> now (run_job example_collaborators ''abc'' ''production'' ''acme'' example_world) = 9200
   \<and> getStatus ''abc-production-1000''
       (run_job example_collaborators ''abc'' ''production'' ''acme'' example_world) =
       StatusView
         \<lparr>status = completed, message = ''Backup completed successfully'', progress = None,
          error = None, s3Location = Some ''acme-2025-01-15-production-abc.tar.gz'',
          etag = Some ''tag'', startTime = 9200\<rparr> 0"
  by (simp add: run_defs example_defs string_of_nat_eval)

text \<open>
  C4, as stated: after \<open>startBackup\<close> returns, the status is pending, for every
  invocation. With no bucket configured the entry is failed when the handler answers:
  the call of \<open>performBackup\<close> has run the checks and the catch block already.
\<close>

theorem startBackup_not_pending_counterexample:
  "fst (startBackup (example_collaborators\<lparr>S3_BUCKET_NAME := None\<rparr>)
          ''abc'' ''production'' ''acme'' example_world) = ''abc-production-1000''
   \<and> getStatus ''abc-production-1000''
       (snd (snd (startBackup (example_collaborators\<lparr>S3_BUCKET_NAME := None\<rparr>)
                    ''abc'' ''production'' ''acme'' example_world))) =
       StatusView
         \<lparr>status = failed, message = ''Backup failed'', progress = None,
          error = Some ''S3_BUCKET_NAME environment variable is not set'',
          s3Location = None, etag = None, startTime = 1000\<rparr> 0"
  by (simp add: run_defs example_defs string_of_nat_eval)

text \<open>
  C4, amended. \<open>startBackup\<close> answers with the generated id, and its first write to the
  table is the pending entry for that id, made before the job is started and before
  the handler answers. At the answer the entry is still pending exactly when the
  synchronous start of the job did not throw, that is when the three storage variables
  are set and the client could be created; otherwise it is failed already, with the
  message of what was thrown.
\<close>

theorem startBackup_status_at_response:
  "fst (startBackup c pid ds pname w) = backupId_of pid ds (now w)
   \<and> take (Suc (length (writes w))) (writes (snd (snd (startBackup c pid ds pname w)))) =
       writes w @ [(backupId_of pid ds (now w),
          \<lparr>status = pending, message = ''Starting backup process...'', progress = None,
           error = None, s3Location = None, etag = None, startTime = now w\<rparr>)]
   \<and> getStatus (backupId_of pid ds (now w)) (snd (snd (startBackup c pid ds pname w))) =
       (case try_until_fetch c of
          None \<Rightarrow>
            StatusView
              \<lparr>status = pending, message = ''Starting backup process...'', progress = None,
               error = None, s3Location = None, etag = None, startTime = now w\<rparr> 0
        | Some e \<Rightarrow>
            StatusView
              \<lparr>status = failed, message = ''Backup failed'', progress = None,
               error = Some (error_message e), s3Location = None, etag = None,
               startTime = now w\<rparr> 0)
   \<and> (try_until_fetch c = None) =
       (\<not> falsy (S3_BUCKET_NAME c) \<and> \<not> falsy (AWS_ACCESS_KEY_ID c)
        \<and> \<not> falsy (AWS_SECRET_ACCESS_KEY c) \<and> createClient_throws c = None)"
proof (intro conjI)
  show "fst (startBackup c pid ds pname w) = backupId_of pid ds (now w)"
    by (simp add: startBackup_def Let_def)
  show "take (Suc (length (writes w))) (writes (snd (snd (startBackup c pid ds pname w)))) =
       writes w @ [(backupId_of pid ds (now w),
          \<lparr>status = pending, message = ''Starting backup process...'', progress = None,
           error = None, s3Location = None, etag = None, startTime = now w\<rparr>)]"
    by (simp add: startBackup_def performBackup_sync_def Let_def split: option.splits)
  show "getStatus (backupId_of pid ds (now w)) (snd (snd (startBackup c pid ds pname w))) =
       (case try_until_fetch c of
          None \<Rightarrow>
            StatusView
              \<lparr>status = pending, message = ''Starting backup process...'', progress = None,
               error = None, s3Location = None, etag = None, startTime = now w\<rparr> 0
        | Some e \<Rightarrow>
            StatusView
              \<lparr>status = failed, message = ''Backup failed'', progress = None,
               error = Some (error_message e), s3Location = None, etag = None,
               startTime = now w\<rparr> 0)"
    by (simp add: startBackup_def performBackup_sync_def getStatus_def Let_def
        split: option.splits)
  show "(try_until_fetch c = None) =
       (\<not> falsy (S3_BUCKET_NAME c) \<and> \<not> falsy (AWS_ACCESS_KEY_ID c)
        \<and> \<not> falsy (AWS_SECRET_ACCESS_KEY c) \<and> createClient_throws c = None)"
    by (rule try_until_fetch_None)
qed

text \<open>
  C5. When the bucket name, the access key id or the secret access key is missing
  (undefined or empty), the job ends failed, with the error naming the first missing
  variable, and \<open>exportDataset\<close> has not been called.
\<close>

theorem missing_configuration_fails_before_export:
  assumes "falsy (S3_BUCKET_NAME c) \<or> falsy (AWS_ACCESS_KEY_ID c) \<or> falsy (AWS_SECRET_ACCESS_KEY c)"
  shows "backupStatus (run_job c pid ds pname w) (backupId_of pid ds (now w)) =
           Some \<lparr>status = failed, message = ''Backup failed'', progress = None,
                 error = Some ((if falsy (S3_BUCKET_NAME c) then ''S3_BUCKET_NAME''
                                else if falsy (AWS_ACCESS_KEY_ID c) then ''AWS_ACCESS_KEY_ID''
                                else ''AWS_SECRET_ACCESS_KEY'')
                               @ '' environment variable is not set''),
                 s3Location = None, etag = None, startTime = now w\<rparr>
         \<and> exportCalls (run_job c pid ds pname w) = exportCalls w"
  by (simp add: run_job_try_block try_block_def try_until_fetch_missing [OF assms]
      error_message_def)

theorem missing_configuration_fails_before_export_witness:
  "backupStatus
     (run_job (example_collaborators\<lparr>AWS_ACCESS_KEY_ID := None\<rparr>)
        ''abc'' ''production'' ''acme'' example_world) ''abc-production-1000'' =
     Some \<lparr>status = failed, message = ''Backup failed'', progress = None,
           error = Some ''AWS_ACCESS_KEY_ID environment variable is not set'',
           s3Location = None, etag = None, startTime = 1000\<rparr>
   \<and> exportCalls
       (run_job (example_collaborators\<lparr>AWS_ACCESS_KEY_ID := None\<rparr>)
          ''abc'' ''production'' ''acme'' example_world) = 0"
  using missing_configuration_fails_before_export
    [of "example_collaborators\<lparr>AWS_ACCESS_KEY_ID := None\<rparr>"
        "''abc''" "''production''" "''acme''" example_world]
  by (simp add: example_defs falsy_def backupId_of_def string_of_nat_eval)

text \<open>
  C6. Whatever the try block throws, at whatever stage, and whatever the cleanup in
  the catch block does (\<open>x\<close>: it succeeds, or throws anything), the job's entry ends
  failed with the message of the value the try block threw (\<open>Unknown error\<close> when it is
  not an \<open>Error\<close>). The local archive file is removed when the removal succeeds and the
  disk is left as it is when the removal throws.
\<close>

theorem failure_records_original_error:
  assumes "try_block c (backupId_of pid ds (now w)) pid ds pname
             (set_status (backupId_of pid ds (now w))
                \<lparr>status = pending, message = ''Starting backup process...'', progress = None,
                 error = None, s3Location = None, etag = None, startTime = now w\<rparr> w)
           = (Some e, w1)"
  shows "backupStatus (run_job (c\<lparr>cleanup_throws := x\<rparr>) pid ds pname w)
           (backupId_of pid ds (now w)) =
           Some \<lparr>status = failed, message = ''Backup failed'', progress = None,
                 error = Some (case e of Error m \<Rightarrow> m | _ \<Rightarrow> ''Unknown error''),
                 s3Location = None, etag = None, startTime = now w1\<rparr>
         \<and> files (run_job (c\<lparr>cleanup_throws := x\<rparr>) pid ds pname w) =
             (if x = None then (files w1)(createFilename c pid ds pname := None) else files w1)"
  by (simp add: run_job_try_block try_block_cleanup assms error_message_def)

theorem failure_records_original_error_witness:
  "backupStatus
     (run_job (example_collaborators
                 \<lparr>upload_result := Inl (Error ''Access Denied''),
                  cleanup_throws := Some (Error ''EPERM: operation not permitted'')\<rparr>)
        ''abc'' ''production'' ''acme'' example_world) ''abc-production-1000'' =
     Some \<lparr>status = failed, message = ''Backup failed'', progress = None,
           error = Some ''Access Denied'', s3Location = None, etag = None, startTime = 9200\<rparr>
   \<and> files
       (run_job (example_collaborators
                 \<lparr>upload_result := Inl (Error ''Access Denied''),
                  cleanup_throws := Some (Error ''EPERM: operation not permitted'')\<rparr>)
        ''abc'' ''production'' ''acme'' example_world) ''acme-2025-01-15-production-abc.tar.gz''
       = Some 0"
proof -
  let ?c = "example_collaborators\<lparr>upload_result := Inl (Error ''Access Denied'')\<rparr>"
  let ?tb = "try_block ?c (backupId_of ''abc'' ''production'' (now example_world))
               ''abc'' ''production'' ''acme''
               (set_status (backupId_of ''abc'' ''production'' (now example_world))
                  \<lparr>status = pending, message = ''Starting backup process...'', progress = None,
                   error = None, s3Location = None, etag = None, startTime = now example_world\<rparr>
                  example_world)"
  have 1: "fst ?tb = Some (Error ''Access Denied'')"
    by (simp add: try_block_def run_defs example_defs string_of_nat_eval)
  have 2: "now (snd ?tb) = 9200"
    by (simp add: try_block_def run_defs example_defs string_of_nat_eval)
  have 3: "files (snd ?tb) ''acme-2025-01-15-production-abc.tar.gz'' = Some 0"
    by (simp add: try_block_def run_defs example_defs string_of_nat_eval)
  have 4: "?tb = (Some (Error ''Access Denied''), snd ?tb)"
    using 1 by (simp add: prod_eq_iff)
  have 5: "backupId_of ''abc'' ''production'' (now example_world) = ''abc-production-1000''"
    by (simp add: example_defs backupId_of_def string_of_nat_eval)
  show ?thesis
    using failure_records_original_error
      [OF 4, of "Some (Error ''EPERM: operation not permitted'')"] 2 3 5
    by (simp add: example_collaborators_def)
qed

text \<open>
  C7, as stated: a file that exists but is empty does not pass the check. In the
  example run the export leaves a file of 0 bytes; it is uploaded and the job completes.
\<close>

theorem empty_export_file_is_uploaded_counterexample:
  "export_leaves example_collaborators = Some 0
   \<and> uploadCalls (run_job example_collaborators ''abc'' ''production'' ''acme'' example_world) = 1
   \<and> map_option status
       (backupStatus (run_job example_collaborators ''abc'' ''production'' ''acme'' example_world)
          ''abc-production-1000'') = Some completed"
  by (simp add: run_defs example_defs string_of_nat_eval)

text \<open>
  C7, amended. After a successful export the orchestrator checks that the output file
  exists, and only that. When there is no file the job ends failed with the message
  \<open>Export file not found: \<close> followed by the file name, and no upload is started; when
  there is a file, of whatever size, the upload is started.
\<close>

theorem export_file_is_checked_for_existence:
  assumes "try_until_fetch c = None" and "fetch_rejects c = None" and "export_rejects c = None"
  shows "if export_leaves c = None \<and> files w (createFilename c pid ds pname) = None then
           uploadCalls (run_job c pid ds pname w) = uploadCalls w
           \<and> backupStatus (run_job c pid ds pname w) (backupId_of pid ds (now w)) =
               Some \<lparr>status = failed, message = ''Backup failed'', progress = None,
                     error = Some (''Export file not found: '' @ createFilename c pid ds pname),
                     s3Location = None, etag = None,
                     startTime = now w + fetch_ms c + export_ms c\<rparr>
         else uploadCalls (run_job c pid ds pname w) = uploadCalls w + 1"
proof -
  define bid where "bid = backupId_of pid ds (now w)"
  define f where "f = createFilename c pid ds pname"
  define w0 where "w0 = set_status bid
      \<lparr>status = pending, message = ''Starting backup process...'', progress = None,
       error = None, s3Location = None, etag = None, startTime = now w\<rparr> w"
  define wC where "wC = export_runs c f
      ((set_status bid
          \<lparr>status = exporting, message = ''Exporting data'', progress = None,
           error = None, s3Location = None, etag = None,
           startTime = now w0 + fetch_ms c\<rparr> (await (fetch_ms c) w0))
        \<lparr>exportCalls := exportCalls w0 + 1\<rparr>)"
  have rj: "run_job c pid ds pname w =
     (case try_block c bid pid ds pname w0 of
        (Some e, w1) \<Rightarrow> on_rejected bid e (performBackup_catch c bid pid ds pname e w1)
      | (None, w1) \<Rightarrow> w1)"
    unfolding bid_def w0_def by (rule run_job_try_block)
  have tb: "try_block c bid pid ds pname w0 =
     (case try_until_upload c bid pid ds pname wC of
        (Some e, w2) \<Rightarrow> (Some e, w2)
      | (None, w2) \<Rightarrow> try_after_upload c bid pid ds pname (upload_runs c bid w2))"
    unfolding wC_def f_def by (rule try_block_after_probe [OF assms(1,2)])
  have fC: "files wC f = (case export_leaves c of None \<Rightarrow> files w f | Some n \<Rightarrow> Some n)"
    by (simp add: wC_def w0_def split: option.splits)
  have nC: "now wC = now w + fetch_ms c + export_ms c" and uC: "uploadCalls wC = uploadCalls w"
    by (simp_all add: wC_def w0_def)
  show ?thesis
  proof (cases "export_leaves c = None \<and> files w f = None")
    case True
    then have "files wC f = None"
      using fC by simp
    then have "try_until_upload c bid pid ds pname wC =
        (Some (Error (''Export file not found: '' @ f)),
         set_status bid
           \<lparr>status = uploading, message = ''Uploading to S3...'', progress = None,
            error = None, s3Location = None, etag = None, startTime = now wC\<rparr> wC)"
      unfolding f_def by (rule try_until_upload_absent [OF assms(3)])
    then show ?thesis
      using True nC uC by (simp add: rj tb error_message_def flip: bid_def f_def)
  next
    case False
    then obtain n where "files wC f = Some n"
      using fC by (cases "export_leaves c") auto
    then have "try_until_upload c bid pid ds pname wC =
        (None,
         (set_status bid
           \<lparr>status = uploading, message = ''Uploading to S3...'', progress = None,
            error = None, s3Location = None, etag = None, startTime = now wC\<rparr> wC)
         \<lparr>uploadCalls := uploadCalls wC + 1\<rparr>)"
      unfolding f_def by (rule try_until_upload_present [OF assms(3)])
    then have "uploadCalls (snd (try_block c bid pid ds pname w0)) = uploadCalls w + 1"
      using uC by (simp add: tb try_after_upload_frame)
    moreover have "uploadCalls (run_job c pid ds pname w) =
        uploadCalls (snd (try_block c bid pid ds pname w0))"
      unfolding bid_def w0_def by (rule run_job_uploadCalls)
    ultimately show ?thesis
      using False by (simp flip: f_def)
  qed
qed

theorem export_file_is_checked_for_existence_witness:
  "uploadCalls (run_job (example_collaborators\<lparr>export_leaves := None\<rparr>)
                  ''abc'' ''production'' ''acme'' example_world) = 0
   \<and> backupStatus (run_job (example_collaborators\<lparr>export_leaves := None\<rparr>)
                  ''abc'' ''production'' ''acme'' example_world) ''abc-production-1000'' =
       Some \<lparr>status = failed, message = ''Backup failed'', progress = None,
             error = Some ''Export file not found: acme-2025-01-15-production-abc.tar.gz'',
             s3Location = None, etag = None, startTime = 6200\<rparr>"
  using export_file_is_checked_for_existence
    [of "example_collaborators\<lparr>export_leaves := None\<rparr>" example_world
        "''abc''" "''production''" "''acme''"]
  by (simp add: example_defs try_until_fetch_def falsy_def backupId_of_def string_of_nat_eval)

text \<open>
  C8, as stated: two distinct invocations never get the same id. A second request for
  the same project and dataset handled in the same millisecond gets the id of the
  first, and so do two requests in one millisecond whose project and dataset ids
  join to the same text.
\<close>

theorem same_millisecond_same_id_counterexample:
  "fst (startBackup example_collaborators ''abc'' ''production'' ''acme''
          (snd (snd (startBackup example_collaborators ''abc'' ''production'' ''acme''
                       example_world)))) =
   fst (startBackup example_collaborators ''abc'' ''production'' ''acme'' example_world)
   \<and> fst (startBackup example_collaborators ''a-b'' ''c'' ''acme'' example_world) =
     fst (startBackup example_collaborators ''a'' ''b-c'' ''acme'' example_world)"
  by (simp add: run_defs example_defs string_of_nat_eval)

text \<open>
  C8, amended. The id is the project id, the dataset and the millisecond timestamp,
  joined by hyphens. Two invocations get the same id exactly when they read the same
  timestamp and their project id and dataset join to the same text; invocations at
  different timestamps always get different ids.
\<close>

theorem backupId_collides_only_in_same_millisecond:
  "(fst (startBackup c1 p1 d1 n1 w1) = fst (startBackup c2 p2 d2 n2 w2)) =
     (now w1 = now w2 \<and> p1 @ ''-'' @ d1 = p2 @ ''-'' @ d2)"
  by (simp add: startBackup_def Let_def backupId_of_eq_iff)

section \<open>The claim about downloads\<close>

text \<open>
  C9, as stated: the handler validates that the key is not empty. The handler has no
  check of the key: an empty key goes to the storage client like any other, and when
  the client answers with a body the handler streams it.
\<close>

theorem empty_key_is_not_rejected_counterexample:
  "downloadArchive (Some ''backups'')
     (\<lambda>b k. Inr \<lparr>Body = Some ''data'', ContentLength = Some 4\<rparr>) [] =
   Streamed
     [(''Content-Type'', ''application/gzip''),
      (''Content-Disposition'', ''attachment; filename='' @ [CHR 0x22, CHR 0x22]),
      (''Content-Length'', ''4'')] ''data''"
  by (simp add: downloadArchive_def falsy_def string_of_nat_eval)

text \<open>
  A file name with a control character is refused by \<open>setHeader\<close>, and the handler
  answers with an error even though the storage client sent a body.
\<close>

lemma downloadArchive_control_character:
  "downloadArchive (Some ''backups'')
     (\<lambda>b k. Inr \<lparr>Body = Some ''data'', ContentLength = Some 4\<rparr>) (''a'' @ [CHR 0x0A] @ ''b'') =
   ErrorJson 500
     (''Invalid character in header content ['' @ [CHR 0x22] @ ''Content-Disposition''
      @ [CHR 0x22] @ '']'')"
  by (simp add: downloadArchive_def falsy_def invalid_header_char_def)

text \<open>
  C9, amended. The handler does not check the key itself. With the bucket configured,
  when the storage client rejects the fetch (no such object, or any other error) or
  answers without a body, the handler answers with status 500 and the error's message.
\<close>

theorem downloadArchive_storage_failure:
  assumes "b \<noteq> []"
    and "(\<exists>e. send b k = Inl e) \<or> (\<exists>r. send b k = Inr r \<and> Body r = None)"
  shows "downloadArchive (Some b) send k =
           ErrorJson 500
             (case send b k of
                Inl e \<Rightarrow> (case e of Error m \<Rightarrow> m | _ \<Rightarrow> ''Unknown error occurred'')
              | Inr r \<Rightarrow> ''No response body received from S3'')"
  using assms by (auto simp: downloadArchive_def falsy_def)

theorem downloadArchive_storage_failure_witness:
  "downloadArchive (Some ''backups'') (\<lambda>b k. Inl (Error ''NoSuchKey'')) ''missing.tar.gz'' =
     ErrorJson 500 ''NoSuchKey''"
  using downloadArchive_storage_failure
    [of "''backups''" "\<lambda>b k. Inl (Error ''NoSuchKey'')" "''missing.tar.gz''"]
  by simp

end
